theory Spec2Isabelle
  imports Complex_Main "HOL-Library.AList"
begin

text \<open>
  The road index of the FGCU traffic viewer: the geometry of point-to-polyline distance,
  road segments built from OSM ways, the two spatial indexes (an R-tree of bounding
  boxes in roadIndex.ts, a grid of midpoint cells in trafficSystem.js) with their
  nearest-road lookup, bulk load, the traffic data store, synthetic pavement condition
  and the loading of traffic signals. Every function of the sources is a function here,
  under its own name where that name is free; what a method changes is returned. The
  definitions come first, the properties after them.
\<close>

section \<open>Numbers\<close>

text \<open>
  JavaScript numbers are IEEE 754 doubles. A finite double is held as the real number it
  denotes. An arithmetic operation of the lookup (the distance of a point to a road, the
  search box, the grid cell) is the exact operation followed by \<open>double_round\<close>,
  rounding to the nearest double with ties going to the even significand: 53 bits, and
  below \<open>2 powi - 1022\<close> the fixed spacing \<open>2 powi - 1074\<close> of the subnormal
  numbers. Exponent overflow is left out: with coordinates in degrees and distances in
  metres no result comes near \<open>2 powi 1024\<close>. The two non-finite values the distance
  loop can produce, \<open>Infinity\<close> (its start value) and \<open>NaN\<close> (a read past the
  end of \<open>positions\<close>), are kept as constructors of their own. The haversine length
  of a segment, whose sine, cosine and arc tangent differ between engines, and the
  arithmetic on pavement condition values are kept exact.
\<close>

text \<open>The integer nearest to \<open>y\<close>; halfway between two integers the even one.\<close>

definition round_even :: "real \<Rightarrow> int" where
  "round_even y =
     (let f = \<lfloor>y\<rfloor>; r = y - of_int f
      in if r < 1 / 2 then f else if 1 / 2 < r then f + 1 else if even f then f else f + 1)"

text \<open>The exponent of the spacing of the doubles around \<open>x\<close>.\<close>

definition ulp_exponent :: "real \<Rightarrow> int" where
  "ulp_exponent x = max (\<lfloor>log 2 \<bar>x\<bar>\<rfloor> - 52) (- 1074)"

definition double_round :: "real \<Rightarrow> real" where
  "double_round x =
     (if x = 0 then 0
      else of_int (round_even (x / 2 powi ulp_exponent x)) * 2 powi ulp_exponent x)"

text \<open>The operators \<open>+\<close>, \<open>-\<close>, \<open>*\<close>, \<open>/\<close> and \<open>Math.sqrt\<close> on doubles.\<close>

definition fadd :: "real \<Rightarrow> real \<Rightarrow> real" where
  "fadd a b = double_round (a + b)"

definition fsub :: "real \<Rightarrow> real \<Rightarrow> real" where
  "fsub a b = double_round (a - b)"

definition fmul :: "real \<Rightarrow> real \<Rightarrow> real" where
  "fmul a b = double_round (a * b)"

definition fdiv :: "real \<Rightarrow> real \<Rightarrow> real" where
  "fdiv a b = double_round (a / b)"

definition fsqrt :: "real \<Rightarrow> real" where
  "fsqrt a = double_round (sqrt a)"

datatype xnum = Num real | PosInf | NaN

text \<open>\<open>Math.min\<close> on two arguments: NaN wins, then the smaller one.\<close>

fun math_min :: "xnum \<Rightarrow> xnum \<Rightarrow> xnum" where
  "math_min NaN b = NaN"
| "math_min a NaN = NaN"
| "math_min PosInf b = b"
| "math_min a PosInf = a"
| "math_min (Num a) (Num b) = Num (min a b)"

text \<open>Multiplication by a positive finite constant (the metres-per-degree factor).\<close>

fun xtimes :: "xnum \<Rightarrow> real \<Rightarrow> xnum" where
  "xtimes (Num a) c = Num (fmul a c)"
| "xtimes PosInf c = PosInf"
| "xtimes NaN c = NaN"

text \<open>\<open>a < b\<close> for a finite right-hand side: false for Infinity and for NaN.\<close>

fun xless :: "xnum \<Rightarrow> real \<Rightarrow> bool" where
  "xless (Num a) b = (a < b)"
| "xless PosInf b = False"
| "xless NaN b = False"

definition metersPerDegree :: real where
  "metersPerDegree = 111320"

section \<open>Data model\<close>

text \<open>
  Values a metadata property can hold. An object is a finite map from property names to
  values; a property that is absent and one that holds \<open>undefined\<close> read the same and
  are both modelled as absent.
\<close>

datatype jsval = JNull | JNaN | JNum real | JStr string | JBool bool

type_synonym jsobject = "string \<rightharpoonup> jsval"

record RoadSegment =
  road_id :: string
  name :: string
  kind :: string
  positions :: "real list"
  bbox :: "real \<times> real \<times> real \<times> real"
  length_m :: real
  midpoint :: "real \<times> real"
  metadata :: "jsobject option"

datatype TrafficLevel = HEAVY | MODERATE | LIGHT | MINIMAL

record TrafficMetrics =
  currentVolume :: real
  forecast1h :: real
  forecast4h :: real
  forecast24h :: real
  level :: TrafficLevel
  lastUpdated :: string
  signalCount :: real

record BBox =
  minX :: real
  minY :: real
  maxX :: real
  maxY :: real

record RTreeItem = BBox +
  roadId :: string

section \<open>Geometry (roadIndex.ts and trafficSystem.js)\<close>

text \<open>\<open>pointToLineDistance\<close> of roadIndex.ts: projection, clamp by two comparisons.\<close>

definition pointToLineDistance :: "real \<Rightarrow> real \<Rightarrow> real \<Rightarrow> real \<Rightarrow> real \<Rightarrow> real \<Rightarrow> real" where
  "pointToLineDistance px py x1 y1 x2 y2 =
     (let A = fsub px x1; B = fsub py y1; C = fsub x2 x1; D = fsub y2 y1;
          dot = fadd (fmul A C) (fmul B D);
          lenSq = fadd (fmul C C) (fmul D D)
      in if lenSq = 0 then fsqrt (fadd (fmul A A) (fmul B B))
         else
           let param0 = fdiv dot lenSq;
               param = (if param0 < 0 then 0 else if param0 > 1 then 1 else param0);
               xx = fadd x1 (fmul param C);
               yy = fadd y1 (fmul param D);
               dx = fsub px xx;
               dy = fsub py yy
           in fsqrt (fadd (fmul dx dx) (fmul dy dy)))"

text \<open>\<open>pointToLineDistance\<close> of trafficSystem.js: the clamp is \<open>Math.max(0, Math.min(1, param))\<close>.\<close>

definition pointToLineDistance_js :: "real \<Rightarrow> real \<Rightarrow> real \<Rightarrow> real \<Rightarrow> real \<Rightarrow> real \<Rightarrow> real" where
  "pointToLineDistance_js px py x1 y1 x2 y2 =
     (let A = fsub px x1; B = fsub py y1; C = fsub x2 x1; D = fsub y2 y1;
          dot = fadd (fmul A C) (fmul B D);
          lenSq = fadd (fmul C C) (fmul D D)
      in if lenSq = 0 then fsqrt (fadd (fmul A A) (fmul B B))
         else
           let param0 = fdiv dot lenSq;
               param = max 0 (min 1 param0);
               xx = fadd x1 (fmul param C);
               yy = fadd y1 (fmul param D);
               dx = fsub px xx;
               dy = fsub py yy
           in fsqrt (fadd (fmul dx dx) (fmul dy dy)))"

text \<open>
  The loop of \<open>distanceToRoad\<close>: \<open>for (i = 0; i < positions.length - 2; i += 2)\<close>, on
  the part of \<open>positions\<close> from index \<open>i\<close> on. With exactly three numbers left the
  loop still runs and reads \<open>positions[i + 3]\<close> past the end, which makes the distance,
  and from then on the minimum, NaN.
\<close>

fun minDistance_loop :: "(real \<Rightarrow> real \<Rightarrow> real \<Rightarrow> real \<Rightarrow> real) \<Rightarrow> xnum \<Rightarrow> real list \<Rightarrow> xnum" where
  "minDistance_loop segDist minDistance (x1 # y1 # x2 # y2 # rest) =
     minDistance_loop segDist (math_min minDistance (Num (segDist x1 y1 x2 y2))) (x2 # y2 # rest)"
| "minDistance_loop segDist minDistance [x1, y1, x2] = NaN"
| "minDistance_loop segDist minDistance ps = minDistance"

definition distanceToRoad :: "real \<Rightarrow> real \<Rightarrow> RoadSegment \<Rightarrow> xnum" where
  "distanceToRoad lon lat road =
     xtimes (minDistance_loop (pointToLineDistance lon lat) PosInf (positions road)) metersPerDegree"

definition distanceToRoad_js :: "real \<Rightarrow> real \<Rightarrow> RoadSegment \<Rightarrow> xnum" where
  "distanceToRoad_js lon lat road =
     xtimes (minDistance_loop (pointToLineDistance_js lon lat) PosInf (positions road)) metersPerDegree"

section \<open>The index state\<close>

text \<open>
  Both implementations keep \<open>roads\<close> and \<open>trafficData\<close> as a \<open>Map\<close> from road ids.
  A \<open>Map\<close> iterates in the order of first insertion and \<open>set\<close> on a present key
  keeps its place: an association list under \<open>AList.update\<close>. roadIndex.ts adds an
  RBush tree of bounding boxes, trafficSystem.js a grid of cells holding road ids. The
  grid key, the string \<open>gridX,gridY\<close>, is modelled as the pair of integers it prints.
\<close>

record RoadIndexBase =
  roads :: "(string \<times> RoadSegment) list"
  trafficData :: "(string \<times> TrafficMetrics) list"

record RoadIndex = RoadIndexBase +
  spatialIndex :: "RTreeItem list"

record RoadIndex_js = RoadIndexBase +
  spatialGrid :: "((int \<times> int) \<times> string list) list"

definition new_RoadIndex :: RoadIndex where
  "new_RoadIndex = \<lparr>roads = [], trafficData = [], spatialIndex = []\<rparr>"

definition new_RoadIndex_js :: RoadIndex_js where
  "new_RoadIndex_js = \<lparr>roads = [], trafficData = [], spatialGrid = []\<rparr>"

subsection \<open>RBush\<close>

text \<open>
  Modelled from the spec: RBush, the third-party library behind \<open>spatialIndex\<close>; only
  its type declaration is among the sources. The specification has the tree keyed by each
  segment's box and a query retrieve the box-overlapping candidates. The tree is
  represented by the list of the items inserted so far. What \<open>search\<close> returns, and
  in which order, is the library's business: \<open>search\<close> is a parameter of the model,
  constrained by \<open>rbush_search_spec\<close> to return exactly the stored items whose box
  intersects the query box.
\<close>

type_synonym rbush = "RTreeItem list"

type_synonym rbush_search = "rbush \<Rightarrow> BBox \<Rightarrow> RTreeItem list"

definition rbush_insert :: "RTreeItem \<Rightarrow> rbush \<Rightarrow> rbush" where
  "rbush_insert item t = t @ [item]"

definition rbush_all :: "rbush \<Rightarrow> RTreeItem list" where
  "rbush_all t = t"

definition intersects :: "BBox \<Rightarrow> RTreeItem \<Rightarrow> bool" where
  "intersects a b \<longleftrightarrow>
     minX b \<le> maxX a \<and> minY b \<le> maxY a \<and> maxX b \<ge> minX a \<and> maxY b \<ge> minY a"

definition rbush_search_spec :: "rbush_search \<Rightarrow> bool" where
  "rbush_search_spec search \<longleftrightarrow>
     (\<forall>t b. set (search t b) = {item \<in> set t. intersects b item})"

text \<open>The simplest function that meets the constraint: a scan in insertion order.\<close>

definition linear_search :: rbush_search where
  "linear_search t b = filter (intersects b) t"

subsection \<open>addRoad\<close>

text \<open>The item \<open>addRoad\<close> hands to the tree: the segment's box and its id.\<close>

definition item_of :: "RoadSegment \<Rightarrow> RTreeItem" where
  "item_of segment =
     \<lparr>minX = fst (bbox segment), minY = fst (snd (bbox segment)),
      maxX = fst (snd (snd (bbox segment))), maxY = snd (snd (snd (bbox segment))),
      roadId = road_id segment\<rparr>"

definition addRoad :: "RoadSegment \<Rightarrow> RoadIndex \<Rightarrow> RoadIndex" where
  "addRoad segment idx =
     idx\<lparr>roads := AList.update (road_id segment) segment (roads idx),
         spatialIndex := rbush_insert (item_of segment) (spatialIndex idx)\<rparr>"

text \<open>
  The grid of trafficSystem.js. \<open>gridSize\<close> is the double the literal \<open>0.001\<close>
  denotes, and a cell index is \<open>Math.floor\<close> of the rounded quotient by it. Cell
  indexes are integers; for coordinates in degrees they stay far below \<open>2 ^ 53\<close>,
  where adding an offset of the scanned block is exact in doubles too.
\<close>

definition gridSize :: real where
  "gridSize = double_round (1 / 1000)"

definition getGridKey :: "real \<Rightarrow> real \<Rightarrow> int \<times> int" where
  "getGridKey lon lat = (\<lfloor>fdiv lon gridSize\<rfloor>, \<lfloor>fdiv lat gridSize\<rfloor>)"

definition cellRoads :: "((int \<times> int) \<times> string list) list \<Rightarrow> int \<times> int \<Rightarrow> string list" where
  "cellRoads grid gridKey = (case map_of grid gridKey of None \<Rightarrow> [] | Some ids \<Rightarrow> ids)"

definition addRoad_js :: "RoadSegment \<Rightarrow> RoadIndex_js \<Rightarrow> RoadIndex_js" where
  "addRoad_js road idx =
     (let gridKey = getGridKey (fst (midpoint road)) (snd (midpoint road));
          grid0 = (if map_of (spatialGrid idx) gridKey = None
                   then AList.update gridKey [] (spatialGrid idx) else spatialGrid idx)
      in idx\<lparr>roads := AList.update (road_id road) road (roads idx),
             spatialGrid := AList.update gridKey (cellRoads grid0 gridKey @ [road_id road]) grid0\<rparr>)"

subsection \<open>findNearest\<close>

text \<open>
  The selection loop is the same in both files: a candidate that does not resolve to a
  road is skipped, and a road replaces the current nearest one only when its distance is
  strictly below the current nearest distance, which starts at \<open>maxDistanceMeters\<close>.
  roadIndex.ts looks the road up inside the loop, trafficSystem.js while it collects the
  candidates; the loop here takes the looked-up roads.
\<close>

definition consider_candidate ::
  "(RoadSegment \<Rightarrow> xnum) \<Rightarrow> RoadSegment option \<Rightarrow> RoadSegment option \<times> real \<Rightarrow> RoadSegment option \<times> real" where
  "consider_candidate distance candidate acc =
     (case candidate of
        None \<Rightarrow> acc
      | Some road \<Rightarrow>
          (case distance road of
             Num d \<Rightarrow> if d < snd acc then (Some road, d) else acc
           | _ \<Rightarrow> acc))"

definition nearest_loop ::
  "(RoadSegment \<Rightarrow> xnum) \<Rightarrow> RoadSegment option list \<Rightarrow> real \<Rightarrow> RoadSegment option" where
  "nearest_loop distance candidates maxDistanceMeters =
     fst (fold (consider_candidate distance) candidates (None, maxDistanceMeters))"

text \<open>The box \<open>findNearest\<close> of roadIndex.ts hands to the tree.\<close>

definition searchBbox :: "real \<Rightarrow> real \<Rightarrow> real \<Rightarrow> BBox" where
  "searchBbox lon lat maxDistanceMeters =
     (let maxDistanceDeg = fdiv maxDistanceMeters 111320
      in \<lparr>minX = fsub lon maxDistanceDeg, minY = fsub lat maxDistanceDeg,
          maxX = fadd lon maxDistanceDeg, maxY = fadd lat maxDistanceDeg\<rparr>)"

definition candidates_ts :: "rbush_search \<Rightarrow> RoadIndex \<Rightarrow> real \<Rightarrow> real \<Rightarrow> real \<Rightarrow> RTreeItem list" where
  "candidates_ts search idx lon lat maxDistanceMeters =
     search (spatialIndex idx) (searchBbox lon lat maxDistanceMeters)"

definition findNearest :: "rbush_search \<Rightarrow> RoadIndex \<Rightarrow> real \<Rightarrow> real \<Rightarrow> real \<Rightarrow> RoadSegment option" where
  "findNearest search idx lon lat maxDistanceMeters =
     (let candidates = candidates_ts search idx lon lat maxDistanceMeters
      in if candidates = [] then None
         else nearest_loop (distanceToRoad lon lat)
                (map (\<lambda>candidate. map_of (roads idx) (roadId candidate)) candidates)
                maxDistanceMeters)"

definition searchRadius :: int where
  "searchRadius = 2"

definition candidates_js :: "RoadIndex_js \<Rightarrow> real \<Rightarrow> real \<Rightarrow> RoadSegment option list" where
  "candidates_js idx lon lat =
     (let centerGridX = \<lfloor>fdiv lon gridSize\<rfloor>;
          centerGridY = \<lfloor>fdiv lat gridSize\<rfloor>
      in concat (map (\<lambda>dx.
           concat (map (\<lambda>dy.
             map (\<lambda>roadId. map_of (roads idx) roadId)
               (cellRoads (spatialGrid idx) (centerGridX + dx, centerGridY + dy)))
             [- searchRadius .. searchRadius]))
           [- searchRadius .. searchRadius]))"

definition findNearest_js :: "RoadIndex_js \<Rightarrow> real \<Rightarrow> real \<Rightarrow> real \<Rightarrow> RoadSegment option" where
  "findNearest_js idx lon lat maxDistanceMeters =
     (let candidates = candidates_js idx lon lat
      in if candidates = [] then None
         else nearest_loop (distanceToRoad_js lon lat) candidates maxDistanceMeters)"

subsection \<open>Loading a list of segments, and what the data model promises of a segment\<close>

definition addRoads :: "RoadSegment list \<Rightarrow> RoadIndex \<Rightarrow> RoadIndex" where
  "addRoads segs idx = fold addRoad segs idx"

definition addRoads_js :: "RoadSegment list \<Rightarrow> RoadIndex_js \<Rightarrow> RoadIndex_js" where
  "addRoads_js segs idx = fold addRoad_js segs idx"

text \<open>The data model's invariant of \<open>bbox\<close>: every position lies within it.\<close>

fun bbox_covers :: "real \<times> real \<times> real \<times> real \<Rightarrow> real list \<Rightarrow> bool" where
  "bbox_covers (minLon, minLat, maxLon, maxLat) (x # y # rest) \<longleftrightarrow>
     minLon \<le> x \<and> x \<le> maxLon \<and> minLat \<le> y \<and> y \<le> maxLat \<and>
     bbox_covers (minLon, minLat, maxLon, maxLat) rest"
| "bbox_covers bb ps \<longleftrightarrow> True"

definition well_formed :: "RoadSegment \<Rightarrow> bool" where
  "well_formed seg \<longleftrightarrow> bbox_covers (bbox seg) (positions seg)"

text \<open>The grid cell a segment is filed under, and the block of cells a query scans.\<close>

definition cell_of :: "RoadSegment \<Rightarrow> int \<times> int" where
  "cell_of road = getGridKey (fst (midpoint road)) (snd (midpoint road))"

definition in_ring :: "real \<Rightarrow> real \<Rightarrow> RoadSegment \<Rightarrow> bool" where
  "in_ring lon lat road \<longleftrightarrow>
     \<bar>fst (cell_of road) - \<lfloor>fdiv lon gridSize\<rfloor>\<bar> \<le> searchRadius \<and>
     \<bar>snd (cell_of road) - \<lfloor>fdiv lat gridSize\<rfloor>\<bar> \<le> searchRadius"

text \<open>
  The order in which the grid-based lookup meets the inserted segments: cell by cell,
  \<open>dx\<close> in the outer and \<open>dy\<close> in the inner loop, and inside a cell in insertion
  order.
\<close>

definition grid_order :: "RoadSegment list \<Rightarrow> real \<Rightarrow> real \<Rightarrow> RoadSegment list" where
  "grid_order segs lon lat =
     concat (map (\<lambda>dx.
       concat (map (\<lambda>dy.
         filter (\<lambda>s. cell_of s = (\<lfloor>fdiv lon gridSize\<rfloor> + dx, \<lfloor>fdiv lat gridSize\<rfloor> + dy)) segs)
         [- searchRadius .. searchRadius]))
       [- searchRadius .. searchRadius])"

section \<open>Road segments from OSM ways (fromOSMWay)\<close>

text \<open>
  An element of the OSM data: \<open>type\<close>, \<open>id\<close>, the optional \<open>tags\<close> object
  (tag values are strings), the optional \<open>geometry\<close> array of \<open>{lon, lat}\<close> points
  (a way) and \<open>lon\<close>, \<open>lat\<close> (a node). The id is held as the string the template
  literals print. Strings are ASCII.
\<close>

record OSMElement =
  el_type :: string
  el_id :: string
  tags :: "(string \<rightharpoonup> string) option"
  geometry :: "(real \<times> real) list option"
  el_lon :: real
  el_lat :: real

datatype error = InvalidGeometry | InvalidFormat | NotIterable

text \<open>\<open>tags.k\<close> read for its truth value: absent and the empty string are falsy.\<close>

definition truthy_tag :: "(string \<rightharpoonup> string) \<Rightarrow> string \<Rightarrow> string option" where
  "truthy_tag tgs k = (case tgs k of None \<Rightarrow> None | Some s \<Rightarrow> if s = [] then None else Some s)"

subsection \<open>parseInt\<close>

text \<open>
  \<open>parseInt(s)\<close> without a radix: leading white space is dropped, then an optional sign,
  then a \<open>0x\<close> or \<open>0X\<close> prefix selects radix 16, otherwise the radix is 10; the longest
  run of digits of that radix is read, and if there is none the result is NaN.
\<close>

definition is_space :: "char \<Rightarrow> bool" where
  "is_space c \<longleftrightarrow> c \<in> set [CHR 0x09, CHR 0x0A, CHR 0x0B, CHR 0x0C, CHR 0x0D, CHR '' '']"

definition digit_val :: "char \<Rightarrow> nat option" where
  "digit_val c =
     (let n = (of_char c :: nat)
      in if 48 \<le> n \<and> n \<le> 57 then Some (n - 48)
         else if 97 \<le> n \<and> n \<le> 102 then Some (n - 87)
         else if 65 \<le> n \<and> n \<le> 70 then Some (n - 55)
         else None)"

definition is_digit :: "nat \<Rightarrow> char \<Rightarrow> bool" where
  "is_digit radix c = (case digit_val c of None \<Rightarrow> False | Some v \<Rightarrow> v < radix)"

definition digits_value :: "nat \<Rightarrow> string \<Rightarrow> nat" where
  "digits_value radix z = foldl (\<lambda>acc c. acc * radix + (case digit_val c of None \<Rightarrow> 0 | Some v \<Rightarrow> v)) 0 z"

definition parse_digits :: "nat \<Rightarrow> int \<Rightarrow> string \<Rightarrow> jsval" where
  "parse_digits radix sign s =
     (let z = takeWhile (is_digit radix) s
      in if z = [] then JNaN else JNum (of_int (sign * int (digits_value radix z))))"

definition parseInt :: "string \<Rightarrow> jsval" where
  "parseInt str =
     (let s0 = dropWhile is_space str;
          sign = (if s0 \<noteq> [] \<and> hd s0 = CHR ''-'' then - 1 else 1 :: int);
          s1 = (if s0 \<noteq> [] \<and> (hd s0 = CHR ''+'' \<or> hd s0 = CHR ''-'') then tl s0 else s0)
      in if take 2 s1 = ''0x'' \<or> take 2 s1 = ''0X''
         then parse_digits 16 sign (drop 2 s1)
         else parse_digits 10 sign s1)"

text \<open>\<open>s.replace(/[^0-9]/g, '')\<close>: only the decimal digits of \<open>s\<close> stay.\<close>

definition keep_digits :: "string \<Rightarrow> string" where
  "keep_digits s = filter (\<lambda>c. c \<in> set ''0123456789'') s"

subsection \<open>Length\<close>

text \<open>\<open>Math.atan2(y, x)\<close> on finite arguments.\<close>

definition atan2 :: "real \<Rightarrow> real \<Rightarrow> real" where
  "atan2 y x =
     (if x > 0 then arctan (y / x)
      else if x < 0 \<and> y \<ge> 0 then arctan (y / x) + pi
      else if x < 0 \<and> y < 0 then arctan (y / x) - pi
      else if y > 0 then pi / 2
      else if y < 0 then - (pi / 2)
      else 0)"

definition haversine :: "real \<Rightarrow> real \<Rightarrow> real \<Rightarrow> real \<Rightarrow> real" where
  "haversine lon1 lat1 lon2 lat2 =
     (let dLat = (lat2 - lat1) * pi / 180;
          dLon = (lon2 - lon1) * pi / 180;
          a = sin (dLat / 2) * sin (dLat / 2) +
              cos (lat1 * pi / 180) * cos (lat2 * pi / 180) * sin (dLon / 2) * sin (dLon / 2);
          c = 2 * atan2 (sqrt a) (sqrt (1 - a))
      in 6371000 * c)"

text \<open>
  The length loop, with the same bounds as the distance loop. \<open>positions\<close> is filled
  two numbers per point, so it never holds an odd number of entries here.
\<close>

fun length_loop :: "real \<Rightarrow> real list \<Rightarrow> real" where
  "length_loop len (lon1 # lat1 # lon2 # lat2 # rest) =
     length_loop (len + haversine lon1 lat1 lon2 lat2) (lon2 # lat2 # rest)"
| "length_loop len ps = len"

subsection \<open>fromOSMWay\<close>

text \<open>
  The bounding box scan starts from \<open>Infinity\<close> and \<open>-Infinity\<close>; after the first point
  all four accumulators hold that point's coordinates, which is where the fold below
  starts. The function is used on non-empty geometry only (\<open>fromOSMWay\<close> has thrown
  otherwise).
\<close>

fun scan_bbox :: "(real \<times> real) list \<Rightarrow> real \<times> real \<times> real \<times> real" where
  "scan_bbox (p # ps) =
     fold (\<lambda>point (minLon, minLat, maxLon, maxLat).
             (min minLon (fst point), min minLat (snd point),
              max maxLon (fst point), max maxLat (snd point)))
          ps (fst p, snd p, fst p, snd p)"

definition osm_name :: "(string \<rightharpoonup> string) \<Rightarrow> string" where
  "osm_name tgs =
     (case truthy_tag tgs ''name'' of Some n \<Rightarrow> n
      | None \<Rightarrow> (case truthy_tag tgs ''ref'' of Some r \<Rightarrow> r
          | None \<Rightarrow> ''Unnamed '' @ (case truthy_tag tgs ''highway'' of Some h \<Rightarrow> h | None \<Rightarrow> ''road'')))"

definition osm_kind :: "(string \<rightharpoonup> string) \<Rightarrow> string" where
  "osm_kind tgs = (case truthy_tag tgs ''highway'' of Some h \<Rightarrow> h | None \<Rightarrow> ''unknown'')"

text \<open>The metadata object of roadIndex.ts; trafficSystem.js adds \<open>pci: null\<close>.\<close>

definition osm_metadata :: "(string \<rightharpoonup> string) \<Rightarrow> jsobject" where
  "osm_metadata tgs =
     (Map.empty
        (''lanes'' := map_option parseInt (truthy_tag tgs ''lanes''),
         ''maxspeed'' := map_option (\<lambda>s. parseInt (keep_digits s)) (truthy_tag tgs ''maxspeed''),
         ''surface'' := map_option JStr (tgs ''surface'')))"

definition osm_metadata_js :: "(string \<rightharpoonup> string) \<Rightarrow> jsobject" where
  "osm_metadata_js tgs = (osm_metadata tgs)(''pci'' \<mapsto> JNull)"

definition flatten :: "(real \<times> real) list \<Rightarrow> real list" where
  "flatten g = concat (map (\<lambda>point. [fst point, snd point]) g)"

definition fromOSMWay_with :: "((string \<rightharpoonup> string) \<Rightarrow> jsobject) \<Rightarrow> OSMElement \<Rightarrow> error + RoadSegment" where
  "fromOSMWay_with mk_metadata way =
     (case geometry way of
        None \<Rightarrow> Inl InvalidGeometry
      | Some g \<Rightarrow>
          if length g < 2 then Inl InvalidGeometry
          else
            let positions = flatten g;
                midIdx = (length positions div 4) * 2;
                tgs = (case tags way of None \<Rightarrow> Map.empty | Some t \<Rightarrow> t)
            in Inr \<lparr>road_id = ''osm_way_'' @ el_id way,
                    name = osm_name tgs,
                    kind = osm_kind tgs,
                    positions = positions,
                    bbox = scan_bbox g,
                    length_m = length_loop 0 positions,
                    midpoint = (positions ! midIdx, positions ! (midIdx + 1)),
                    metadata = Some (mk_metadata tgs)\<rparr>)"

definition fromOSMWay :: "OSMElement \<Rightarrow> error + RoadSegment" where
  "fromOSMWay = fromOSMWay_with osm_metadata"

definition fromOSMWay_js :: "OSMElement \<Rightarrow> error + RoadSegment" where
  "fromOSMWay_js = fromOSMWay_with osm_metadata_js"

section \<open>Bulk load (RoadIndex.loadFromOSM)\<close>

text \<open>
  The guard of the loop: \<open>element.type === 'way' && element.tags?.highway && element.geometry\<close>.
  An array is truthy even when empty.
\<close>

definition is_highway_way :: "OSMElement \<Rightarrow> bool" where
  "is_highway_way element \<longleftrightarrow>
     el_type element = ''way'' \<and>
     (case tags element of None \<Rightarrow> False | Some t \<Rightarrow> truthy_tag t ''highway'' \<noteq> None) \<and>
     geometry element \<noteq> None"

text \<open>
  The state of the loop: the index, \<open>roadCount\<close>, and the ids of the elements for which
  \<open>console.warn\<close> was called in the \<open>catch\<close> block, in order. Nothing else is counted.
\<close>

definition load_step ::
  "(OSMElement \<Rightarrow> error + RoadSegment) \<Rightarrow> (RoadSegment \<Rightarrow> 'i \<Rightarrow> 'i) \<Rightarrow>
   OSMElement \<Rightarrow> 'i \<times> nat \<times> string list \<Rightarrow> 'i \<times> nat \<times> string list" where
  "load_step from_way add_road element st =
     (case st of (idx, roadCount, warned) \<Rightarrow>
        if is_highway_way element then
          (case from_way element of
             Inr road \<Rightarrow> (add_road road idx, roadCount + 1, warned)
           | Inl err \<Rightarrow> (idx, roadCount, warned @ [el_id element]))
        else st)"

text \<open>
  trafficSystem.js: resolves to \<open>roadCount\<close>. The result here also carries the index
  after the load and the warnings.
\<close>

definition loadFromOSM_js ::
  "OSMElement list option \<Rightarrow> RoadIndex_js \<Rightarrow> error + (RoadIndex_js \<times> nat \<times> string list)" where
  "loadFromOSM_js elements idx =
     (case elements of
        None \<Rightarrow> Inl InvalidFormat
      | Some els \<Rightarrow> Inr (fold (load_step fromOSMWay_js addRoad_js) els (idx, 0, [])))"

text \<open>
  roadIndex.ts: the same loop, but the promise resolves to nothing; \<open>roadCount\<close> is only
  written to the console. The result is the index after the load and the warnings.
\<close>

definition loadFromOSM ::
  "OSMElement list option \<Rightarrow> RoadIndex \<Rightarrow> error + (RoadIndex \<times> string list)" where
  "loadFromOSM elements idx =
     (case elements of
        None \<Rightarrow> Inl InvalidFormat
      | Some els \<Rightarrow>
          (case fold (load_step fromOSMWay addRoad) els (idx, 0, []) of
             (idx', roadCount, warned) \<Rightarrow> Inr (idx', warned)))"

text \<open>Which elements of a batch end where.\<close>

definition point_count :: "OSMElement \<Rightarrow> nat" where
  "point_count element = (case geometry element of None \<Rightarrow> 0 | Some g \<Rightarrow> length g)"

definition loadable :: "OSMElement \<Rightarrow> bool" where
  "loadable element \<longleftrightarrow> is_highway_way element \<and> 2 \<le> point_count element"

definition rejected :: "OSMElement \<Rightarrow> bool" where
  "rejected element \<longleftrightarrow> is_highway_way element \<and> point_count element < 2"

definition loaded_roads :: "(OSMElement \<Rightarrow> error + RoadSegment) \<Rightarrow> OSMElement list \<Rightarrow> RoadSegment list" where
  "loaded_roads from_way els =
     concat (map (\<lambda>element. case from_way element of Inr road \<Rightarrow> [road] | Inl err \<Rightarrow> [])
               (filter loadable els))"

text \<open>
  The number the specification asks to be reported: the ways of the batch with fewer
  than two geometry points.
\<close>

definition skipped_count :: "OSMElement list \<Rightarrow> nat" where
  "skipped_count els = length (filter (\<lambda>element. el_type element = ''way'' \<and> point_count element < 2) els)"

section \<open>Pavement condition (PCIJoiner)\<close>

text \<open>
  What the joiner takes from its surroundings: the successive results of
  \<open>Math.random()\<close>, read by a counter that every call advances, the clock, and the
  formatting of a time stamp as a date (\<open>toISOString().split('T')[0]\<close>), which belongs
  to the language's library and is left open.
\<close>

record js_env =
  random :: "nat \<Rightarrow> real"
  now :: real
  isoDate :: "real \<Rightarrow> string"

record PCIRecord =
  pci_id :: string
  location :: "real \<times> real"
  pci :: real
  condition :: string
  lastInspection :: string
  surface :: string

definition FGCU_PCI_DATA :: "PCIRecord list" where
  "FGCU_PCI_DATA =
     [\<lparr>pci_id = ''pci_001'', location = (- 81773 / 1000, 26463 / 1000), pci = 85,
        condition = ''Good'', lastInspection = ''2024-10-15'', surface = ''Asphalt''\<rparr>,
      \<lparr>pci_id = ''pci_002'', location = (- 81773 / 1000, 26465 / 1000), pci = 72,
        condition = ''Fair'', lastInspection = ''2024-09-20'', surface = ''Concrete''\<rparr>,
      \<lparr>pci_id = ''pci_003'', location = (- 81775 / 1000, 26464 / 1000), pci = 91,
        condition = ''Excellent'', lastInspection = ''2024-11-01'', surface = ''Asphalt''\<rparr>,
      \<lparr>pci_id = ''pci_004'', location = (- 81771 / 1000, 26463 / 1000), pci = 58,
        condition = ''Poor'', lastInspection = ''2024-08-10'', surface = ''Asphalt''\<rparr>,
      \<lparr>pci_id = ''pci_005'', location = (- 81772 / 1000, 26465 / 1000), pci = 79,
        condition = ''Good'', lastInspection = ''2024-10-05'', surface = ''Concrete''\<rparr>,
      \<lparr>pci_id = ''pci_006'', location = (- 81774 / 1000, 26462 / 1000), pci = 67,
        condition = ''Fair'', lastInspection = ''2024-09-15'', surface = ''Asphalt''\<rparr>]"

text \<open>\<open>Math.round\<close>: to the nearest integer, halves upwards.\<close>

definition math_round :: "real \<Rightarrow> int" where
  "math_round x = \<lfloor>x + 1 / 2\<rfloor>"

definition calculateDistance :: "real \<Rightarrow> real \<Rightarrow> real \<Rightarrow> real \<Rightarrow> real" where
  "calculateDistance lon1 lat1 lon2 lat2 = haversine lon1 lat1 lon2 lat2"

text \<open>The nearest record strictly inside the radius, with its rounded distance.\<close>

definition findNearestPCI :: "PCIRecord list \<Rightarrow> real \<Rightarrow> real \<Rightarrow> real \<Rightarrow> (PCIRecord \<times> int) option" where
  "findNearestPCI pciData lon lat maxDistanceMeters =
     fst (fold (\<lambda>rec (nearestPCI, nearestDistance).
                  let distance = calculateDistance lon lat (fst (location rec)) (snd (location rec))
                  in if distance < nearestDistance
                     then (Some (rec, math_round distance), distance)
                     else (nearestPCI, nearestDistance))
            pciData (None, maxDistanceMeters))"

definition metadata_or_empty :: "RoadSegment \<Rightarrow> jsobject" where
  "metadata_or_empty road = (case metadata road of None \<Rightarrow> Map.empty | Some md \<Rightarrow> md)"

definition join_road :: "PCIRecord list \<Rightarrow> RoadSegment \<Rightarrow> RoadSegment \<times> bool" where
  "join_road pciData road =
     (case findNearestPCI pciData (fst (midpoint road)) (snd (midpoint road)) 50 of
        Some (nearestPCI, distance) \<Rightarrow>
          (road\<lparr>metadata := Some ((metadata_or_empty road)
              (''pci'' \<mapsto> JNum (pci nearestPCI),
               ''pciCondition'' \<mapsto> JStr (condition nearestPCI),
               ''pciLastInspection'' \<mapsto> JStr (lastInspection nearestPCI),
               ''pciSurface'' \<mapsto> JStr (surface nearestPCI),
               ''pciDistance'' \<mapsto> JNum (of_int distance)))\<rparr>, True)
      | None \<Rightarrow>
          (road\<lparr>metadata := Some ((metadata_or_empty road)
              (''pci'' \<mapsto> JNull, ''pciCondition'' \<mapsto> JStr ''Unknown''))\<rparr>, False))"

text \<open>\<open>joinToRoads\<close> changes the roads in place; the model returns them with \<open>joinCount\<close>.\<close>

definition joinToRoads :: "PCIRecord list \<Rightarrow> RoadSegment list \<Rightarrow> RoadSegment list \<times> nat" where
  "joinToRoads pciData rds =
     fold (\<lambda>road (joined_roads, joinCount).
             case join_road pciData road of
               (road', joined) \<Rightarrow> (joined_roads @ [road'], if joined then joinCount + 1 else joinCount))
          rds ([], 0)"

definition getPCICategory :: "real option \<Rightarrow> string" where
  "getPCICategory p =
     (case p of
        None \<Rightarrow> ''Unknown''
      | Some v \<Rightarrow> if v \<ge> 80 then ''Excellent''
                  else if v \<ge> 70 then ''Good''
                  else if v \<ge> 60 then ''Fair''
                  else ''Poor'')"

definition getRandomInspectionDate :: "js_env \<Rightarrow> nat \<Rightarrow> string" where
  "getRandomInspectionDate env k =
     (let oneYearAgo = now env - 365 * 24 * 60 * 60 * 1000;
          randomTime = oneYearAgo + random env k * (now env - oneYearAgo)
      in isoDate env randomTime)"

record SyntheticPCI =
  syn_pci :: int
  syn_condition :: string
  syn_lastInspection :: string
  syn_surface :: string
  synthetic :: bool

definition basePCI :: "RoadSegment \<Rightarrow> real" where
  "basePCI road =
     (if kind road = ''trunk'' \<or> kind road = ''primary'' then 80
      else if kind road = ''residential'' \<or> kind road = ''service'' then 65
      else 75)"

text \<open>
  \<open>generateSyntheticPCI\<close> draws three random numbers, in this order: for the variation,
  for the inspection date and for the surface. \<open>k\<close> counts the draws made before.
\<close>

definition generateSyntheticPCI :: "js_env \<Rightarrow> RoadSegment \<Rightarrow> nat \<Rightarrow> SyntheticPCI" where
  "generateSyntheticPCI env road k =
     (let variation = (random env k - 1 / 2) * 20;
          finalPCI = max 40 (min 95 (basePCI road + variation))
      in \<lparr>syn_pci = math_round finalPCI,
          syn_condition = getPCICategory (Some finalPCI),
          syn_lastInspection = getRandomInspectionDate env (k + 1),
          syn_surface = (if random env (k + 2) > 3 / 10 then ''Asphalt'' else ''Concrete''),
          synthetic = True\<rparr>)"

text \<open>The test of \<open>ensureAllRoadsHavePCI\<close>: \<open>!road.metadata || road.metadata.pci === null\<close>.\<close>

definition lacks_pci :: "RoadSegment \<Rightarrow> bool" where
  "lacks_pci road \<longleftrightarrow> (case metadata road of None \<Rightarrow> True | Some md \<Rightarrow> md ''pci'' = Some JNull)"

definition fill_road :: "js_env \<Rightarrow> RoadSegment \<Rightarrow> nat \<Rightarrow> RoadSegment" where
  "fill_road env road k =
     (let syntheticPCI = generateSyntheticPCI env road k
      in road\<lparr>metadata := Some ((metadata_or_empty road)
           (''pci'' \<mapsto> JNum (of_int (syn_pci syntheticPCI)),
            ''pciCondition'' \<mapsto> JStr (syn_condition syntheticPCI),
            ''pciLastInspection'' \<mapsto> JStr (syn_lastInspection syntheticPCI),
            ''pciSurface'' \<mapsto> JStr (syn_surface syntheticPCI),
            ''pciSynthetic'' \<mapsto> JBool True))\<rparr>)"

text \<open>
  \<open>ensureAllRoadsHavePCI\<close> changes the roads in place; the model returns them with
  \<open>syntheticCount\<close>. The state of the loop: the roads done, the count, the draws made.
\<close>

definition ensure_step ::
  "js_env \<Rightarrow> RoadSegment \<Rightarrow> RoadSegment list \<times> nat \<times> nat \<Rightarrow> RoadSegment list \<times> nat \<times> nat" where
  "ensure_step env road st =
     (case st of (filled, syntheticCount, k) \<Rightarrow>
        if lacks_pci road
        then (filled @ [fill_road env road k], syntheticCount + 1, k + 3)
        else (filled @ [road], syntheticCount, k))"

definition ensureAllRoadsHavePCI :: "js_env \<Rightarrow> RoadSegment list \<Rightarrow> RoadSegment list \<times> nat" where
  "ensureAllRoadsHavePCI env rds =
     (case fold (ensure_step env) rds ([], 0, 0) of
        (done, syntheticCount, k) \<Rightarrow> (done, syntheticCount))"

text \<open>A property of a road's metadata, \<open>undefined\<close> when there is none.\<close>

definition metadata_get :: "RoadSegment \<Rightarrow> string \<Rightarrow> jsval option" where
  "metadata_get road key = (case metadata road of None \<Rightarrow> None | Some md \<Rightarrow> md key)"

section \<open>Traffic signals (SignalManager)\<close>

text \<open>
  A signal and the entity added to the viewer for it. The id, the string
  \<open>signal_lon_lat\<close>, is modelled as the pair of coordinates it prints. Of the entity
  only the \<open>properties\<close> are kept; its name and billboard are presentation. The viewer
  belongs to the map library and is taken to accept every entity.
\<close>

record Entity =
  ent_id :: "real \<times> real"
  ent_roadId :: "string option"
  ent_roadName :: string
  ent_lon :: real
  ent_lat :: real

record Signal =
  sig_id :: "real \<times> real"
  sig_lon :: real
  sig_lat :: real
  sig_roadId :: "string option"
  sig_roadName :: string
  entity :: Entity

record SignalManager =
  viewer_entities :: "Entity list"
  roadIndex :: RoadIndex_js
  signals :: "Signal list"
  signalEntities :: "((real \<times> real) \<times> Entity) list"

definition new_SignalManager :: "RoadIndex_js \<Rightarrow> SignalManager" where
  "new_SignalManager idx = \<lparr>viewer_entities = [], roadIndex = idx, signals = [], signalEntities = []\<rparr>"

definition make_signal :: "real \<Rightarrow> real \<Rightarrow> RoadSegment option \<Rightarrow> Signal" where
  "make_signal lon lat nearestRoad =
     \<lparr>sig_id = (lon, lat), sig_lon = lon, sig_lat = lat,
      sig_roadId = map_option road_id nearestRoad,
      sig_roadName = (case nearestRoad of None \<Rightarrow> ''Unknown'' | Some road \<Rightarrow> name road),
      entity = \<lparr>ent_id = (lon, lat), ent_roadId = map_option road_id nearestRoad,
                ent_roadName = (case nearestRoad of None \<Rightarrow> ''Unknown'' | Some road \<Rightarrow> name road),
                ent_lon = lon, ent_lat = lat\<rparr>\<rparr>"

definition addSignal :: "real \<Rightarrow> real \<Rightarrow> RoadSegment option \<Rightarrow> SignalManager \<Rightarrow> Signal \<times> SignalManager" where
  "addSignal lon lat nearestRoad mgr =
     (let signal = make_signal lon lat nearestRoad
      in (signal,
          mgr\<lparr>viewer_entities := viewer_entities mgr @ [entity signal],
              signals := signals mgr @ [signal],
              signalEntities := AList.update (sig_id signal) (entity signal) (signalEntities mgr)\<rparr>))"

text \<open>The guard of the loop: \<open>element.type === "node" && element.tags?.highway === "traffic_signals"\<close>.\<close>

definition is_signal_node :: "OSMElement \<Rightarrow> bool" where
  "is_signal_node element \<longleftrightarrow>
     el_type element = ''node'' \<and>
     (case tags element of None \<Rightarrow> False | Some t \<Rightarrow> t ''highway'' = Some ''traffic_signals'')"

text \<open>
  The state of the loop: the manager, the counter \<open>signalCount\<close> (here
  \<open>loadedCount\<close>), and the coordinates for which
  \<open>console.warn\<close> was called, in order.
\<close>

definition signal_step ::
  "OSMElement \<Rightarrow> SignalManager \<times> nat \<times> (real \<times> real) list \<Rightarrow> SignalManager \<times> nat \<times> (real \<times> real) list" where
  "signal_step element st =
     (case st of (mgr, loadedCount, warned) \<Rightarrow>
        if is_signal_node element then
          (case findNearest_js (roadIndex mgr) (el_lon element) (el_lat element) 25 of
             Some nearestRoad \<Rightarrow>
               (snd (addSignal (el_lon element) (el_lat element) (Some nearestRoad) mgr),
                loadedCount + 1, warned)
           | None \<Rightarrow> (mgr, loadedCount, warned @ [(el_lon element, el_lat element)]))
        else st)"

text \<open>
  \<open>SignalManager.loadFromOSM\<close>: resolves to \<open>signalCount\<close> (here \<open>loadedCount\<close>). The result here also
  carries the manager after the load and the warnings. Without an \<open>elements\<close> array the
  loop header throws.
\<close>

definition loadSignals ::
  "OSMElement list option \<Rightarrow> SignalManager \<Rightarrow> error + (SignalManager \<times> nat \<times> (real \<times> real) list)" where
  "loadSignals elements mgr =
     (case elements of
        None \<Rightarrow> Inl NotIterable
      | Some els \<Rightarrow> Inr (fold signal_step els (mgr, 0, [])))"

definition getSignalsForRoad :: "string \<Rightarrow> SignalManager \<Rightarrow> Signal list" where
  "getSignalsForRoad i mgr = filter (\<lambda>s. sig_roadId s = Some i) (signals mgr)"

definition nearest_for :: "SignalManager \<Rightarrow> OSMElement \<Rightarrow> RoadSegment option" where
  "nearest_for mgr element = findNearest_js (roadIndex mgr) (el_lon element) (el_lat element) 25"

definition associated :: "SignalManager \<Rightarrow> OSMElement \<Rightarrow> bool" where
  "associated mgr element \<longleftrightarrow> is_signal_node element \<and> nearest_for mgr element \<noteq> None"

definition orphaned :: "SignalManager \<Rightarrow> OSMElement \<Rightarrow> bool" where
  "orphaned mgr element \<longleftrightarrow> is_signal_node element \<and> nearest_for mgr element = None"

section \<open>The index as an object: methods, calls and results\<close>

definition setTrafficData :: "string \<Rightarrow> TrafficMetrics \<Rightarrow> 'a RoadIndexBase_scheme \<Rightarrow> 'a RoadIndexBase_scheme" where
  "setTrafficData i metrics idx = idx\<lparr>trafficData := AList.update i metrics (trafficData idx)\<rparr>"

definition getTrafficData :: "string \<Rightarrow> 'a RoadIndexBase_scheme \<Rightarrow> TrafficMetrics option" where
  "getTrafficData i idx = map_of (trafficData idx) i"

definition getRoad :: "string \<Rightarrow> 'a RoadIndexBase_scheme \<Rightarrow> RoadSegment option" where
  "getRoad i idx = map_of (roads idx) i"

definition getAllRoads :: "'a RoadIndexBase_scheme \<Rightarrow> RoadSegment list" where
  "getAllRoads idx = map snd (roads idx)"

text \<open>A call of a method, and what it returns. \<open>getStats\<close> of trafficSystem.js has no \<open>indexSize\<close>.\<close>

datatype call =
    AddRoad RoadSegment
  | LoadFromOSM "OSMElement list option"
  | SetTrafficData string TrafficMetrics
  | FindNearest real real real
  | GetRoad string
  | GetAllRoads
  | GetTrafficData string
  | GetStats

datatype result =
    Done
  | Loaded nat
  | Failed error
  | Road "RoadSegment option"
  | Roads "RoadSegment list"
  | Metrics "TrafficMetrics option"
  | Stats nat "nat option" nat

fun is_query :: "call \<Rightarrow> bool" where
  "is_query (FindNearest lon lat r) = True"
| "is_query (GetRoad i) = True"
| "is_query GetAllRoads = True"
| "is_query (GetTrafficData i) = True"
| "is_query GetStats = True"
| "is_query c = False"

text \<open>One call on the index of roadIndex.ts: the result and the index afterwards.\<close>

fun exec_ts :: "rbush_search \<Rightarrow> call \<Rightarrow> RoadIndex \<Rightarrow> result \<times> RoadIndex" where
  "exec_ts search (AddRoad segment) idx = (Done, addRoad segment idx)"
| "exec_ts search (LoadFromOSM osmData) idx =
     (case loadFromOSM osmData idx of
        Inl err \<Rightarrow> (Failed err, idx)
      | Inr (idx', warned) \<Rightarrow> (Done, idx'))"
| "exec_ts search (SetTrafficData i metrics) idx = (Done, setTrafficData i metrics idx)"
| "exec_ts search (FindNearest lon lat r) idx = (Road (findNearest search idx lon lat r), idx)"
| "exec_ts search (GetRoad i) idx = (Road (getRoad i idx), idx)"
| "exec_ts search GetAllRoads idx = (Roads (getAllRoads idx), idx)"
| "exec_ts search (GetTrafficData i) idx = (Metrics (getTrafficData i idx), idx)"
| "exec_ts search GetStats idx =
     (Stats (length (roads idx)) (Some (length (rbush_all (spatialIndex idx)))) (length (trafficData idx)), idx)"

text \<open>One call on the index of trafficSystem.js.\<close>

fun exec_js :: "call \<Rightarrow> RoadIndex_js \<Rightarrow> result \<times> RoadIndex_js" where
  "exec_js (AddRoad road) idx = (Done, addRoad_js road idx)"
| "exec_js (LoadFromOSM osmData) idx =
     (case loadFromOSM_js osmData idx of
        Inl err \<Rightarrow> (Failed err, idx)
      | Inr (idx', roadCount, warned) \<Rightarrow> (Loaded roadCount, idx'))"
| "exec_js (SetTrafficData i metrics) idx = (Done, setTrafficData i metrics idx)"
| "exec_js (FindNearest lon lat r) idx = (Road (findNearest_js idx lon lat r), idx)"
| "exec_js (GetRoad i) idx = (Road (getRoad i idx), idx)"
| "exec_js GetAllRoads idx = (Roads (getAllRoads idx), idx)"
| "exec_js (GetTrafficData i) idx = (Metrics (getTrafficData i idx), idx)"
| "exec_js GetStats idx = (Stats (length (roads idx)) None (length (trafficData idx)), idx)"

definition run_ts :: "rbush_search \<Rightarrow> call list \<Rightarrow> RoadIndex \<Rightarrow> RoadIndex" where
  "run_ts search calls idx = fold (\<lambda>c i. snd (exec_ts search c i)) calls idx"

definition run_js :: "call list \<Rightarrow> RoadIndex_js \<Rightarrow> RoadIndex_js" where
  "run_js calls idx = fold (\<lambda>c i. snd (exec_js c i)) calls idx"

text \<open>The ids each store knows.\<close>

definition road_ids :: "'a RoadIndexBase_scheme \<Rightarrow> string set" where
  "road_ids idx = fst ` set (roads idx)"

definition traffic_ids :: "'a RoadIndexBase_scheme \<Rightarrow> string set" where
  "traffic_ids idx = fst ` set (trafficData idx)"

definition spatial_ids_ts :: "RoadIndex \<Rightarrow> string set" where
  "spatial_ids_ts idx = roadId ` set (spatialIndex idx)"

definition spatial_ids_js :: "RoadIndex_js \<Rightarrow> string set" where
  "spatial_ids_js idx = {i. \<exists>gridKey. i \<in> set (cellRoads (spatialGrid idx) gridKey)}"

text \<open>Every key of the roads map is the id of the segment stored under it.\<close>

definition keys_ok :: "'a RoadIndexBase_scheme \<Rightarrow> bool" where
  "keys_ok idx \<longleftrightarrow> (\<forall>i s. map_of (roads idx) i = Some s \<longrightarrow> road_id s = i)"

text \<open>The ids a sequence of calls sends in, by the method that receives them.\<close>

fun ids_added :: "call \<Rightarrow> string list" where
  "ids_added (AddRoad segment) = [road_id segment]"
| "ids_added (LoadFromOSM (Some els)) = map (\<lambda>e. ''osm_way_'' @ el_id e) (filter loadable els)"
| "ids_added c = []"

fun ids_set_traffic :: "call \<Rightarrow> string list" where
  "ids_set_traffic (SetTrafficData i metrics) = [i]"
| "ids_set_traffic c = []"

subsection \<open>Arrays handed out\<close>

text \<open>
  \<open>getAllRoads\<close> returns \<open>Array.from(this.roads.values())\<close>: a new array object. To
  speak of changes made to that array afterwards, arrays live in a store of their own,
  addressed by position; a change of an array replaces its contents by any other.
\<close>

record 'i world =
  w_index :: 'i
  w_arrays :: "RoadSegment list list"

definition call_getAllRoads :: "('a RoadIndexBase_scheme) world \<Rightarrow> nat \<times> ('a RoadIndexBase_scheme) world" where
  "call_getAllRoads w = (length (w_arrays w), w\<lparr>w_arrays := w_arrays w @ [getAllRoads (w_index w)]\<rparr>)"

definition change_array :: "nat \<Rightarrow> (RoadSegment list \<Rightarrow> RoadSegment list) \<Rightarrow> 'i world \<Rightarrow> 'i world" where
  "change_array a f w = w\<lparr>w_arrays := (w_arrays w)[a := f (w_arrays w ! a)]\<rparr>"

section \<open>Example ways\<close>

definition residential_way :: "string \<Rightarrow> (real \<times> real) list option \<Rightarrow> OSMElement" where
  "residential_way i g =
     \<lparr>el_type = ''way'', el_id = i, tags = Some [''highway'' \<mapsto> ''residential''],
      geometry = g, el_lon = 0, el_lat = 0\<rparr>"

definition tagged_way :: "string \<Rightarrow> (string \<times> string) list \<Rightarrow> OSMElement" where
  "tagged_way i tgs =
     \<lparr>el_type = ''way'', el_id = i, tags = Some (map_of tgs),
      geometry = Some [(0, 0), (1 / 1024, 0)], el_lon = 0, el_lat = 0\<rparr>"

definition good_way :: "string \<Rightarrow> OSMElement" where
  "good_way i = residential_way i (Some [(0, 0), (1 / 1024, 0)])"

definition single_point_way :: "string \<Rightarrow> OSMElement" where
  "single_point_way i = residential_way i (Some [(0, 0)])"

definition no_geometry_way :: "string \<Rightarrow> OSMElement" where
  "no_geometry_way i = residential_way i None"

definition untagged_single_point_way :: "string \<Rightarrow> OSMElement" where
  "untagged_single_point_way i =
     \<lparr>el_type = ''way'', el_id = i, tags = None,
      geometry = Some [(0, 0)], el_lon = 0, el_lat = 0\<rparr>"

definition batch_of_ten :: "OSMElement list" where
  "batch_of_ten =
     [good_way ''1'', good_way ''2'', good_way ''3'', good_way ''4'', good_way ''5'',
      good_way ''6'', single_point_way ''7'', good_way ''8'', good_way ''9'', good_way ''10'']"

section \<open>Example segments\<close>

text \<open>
  Two-point segments running west to east at a fixed latitude, as \<open>fromOSMWay\<close> builds
  them: the midpoint of a two-point way is its second point.
\<close>

definition level_road :: "string \<Rightarrow> real \<Rightarrow> real \<Rightarrow> real \<Rightarrow> RoadSegment" where
  "level_road i west east y =
     \<lparr>road_id = i, name = ''Unnamed residential'', kind = ''residential'',
      positions = [west, y, east, y], bbox = (west, y, east, y),
      length_m = length_loop 0 [west, y, east, y], midpoint = (east, y),
      metadata = Some (osm_metadata [''highway'' \<mapsto> ''residential''])\<rparr>"

definition road_long :: RoadSegment where
  "road_long = level_road ''osm_way_1'' 0 (1 / 32) 0"

definition road_short :: RoadSegment where
  "road_short = level_road ''osm_way_2'' 0 (1 / 1024) (3 / 8192)"

definition road_north :: RoadSegment where
  "road_north = level_road ''osm_way_3'' 0 (1 / 1024) (3 / 16384)"

definition road_south :: RoadSegment where
  "road_south = level_road ''osm_way_4'' 0 (1 / 1024) (- (3 / 16384))"

text \<open>
  A road and a query latitude at the rim of a radius of 30 m. \<open>radius_deg\<close> is the
  double \<open>30 / 111320\<close> rounds to; the road runs at the largest double below
  \<open>1 / 2 ^ 13\<close>, the query point lies \<open>radius_deg\<close> above \<open>1 / 2 ^ 13\<close>.
\<close>

definition radius_deg :: real where
  "radius_deg = 4971274903083781 / 2 ^ 64"

definition road_edge :: RoadSegment where
  "road_edge = level_road ''osm_way_5'' 0 (1 / 1024) (1 / 2 ^ 13 - 1 / 2 ^ 66)"


text \<open>
  Two roads for a lookup by the R-tree with a radius of 30 m from the point
  \<open>(0, upright_lat)\<close>. \<open>road_upright\<close> runs south to north and ends south of the
  point; \<open>road_east\<close> runs west to east at the latitude of the point and begins
  \<open>radius_deg\<close> east of it.
\<close>

definition two_point_road :: "string \<Rightarrow> real \<Rightarrow> real \<Rightarrow> real \<Rightarrow> real \<Rightarrow> RoadSegment" where
  "two_point_road i x1 y1 x2 y2 =
     \<lparr>road_id = i, name = ''Unnamed residential'', kind = ''residential'',
      positions = [x1, y1, x2, y2], bbox = (min x1 x2, min y1 y2, max x1 x2, max y1 y2),
      length_m = length_loop 0 [x1, y1, x2, y2], midpoint = (x2, y2),
      metadata = Some (osm_metadata [''highway'' \<mapsto> ''residential''])\<rparr>"

definition upright_lat :: real where
  "upright_lat = 1 / 2 ^ 10 + 1242818725770949 / 2 ^ 62"

definition road_upright :: RoadSegment where
  "road_upright = two_point_road ''osm_way_6'' 0 (3 / 2 ^ 63) 0 (1 / 2 ^ 10 + 3 / 2 ^ 62)"

definition road_east :: RoadSegment where
  "road_east = two_point_road ''osm_way_7'' radius_deg upright_lat (2 * radius_deg) upright_lat"

text \<open>A residential road as trafficSystem.js builds it, with \<open>pci: null\<close>.\<close>

definition road_unjoined :: RoadSegment where
  "road_unjoined = road_north\<lparr>metadata := Some (osm_metadata_js [''highway'' \<mapsto> ''residential''])\<rparr>"

definition road_measured :: RoadSegment where
  "road_measured = road_south\<lparr>metadata := Some [''pci'' \<mapsto> JNum 72]\<rparr>"

definition signal_node :: "real \<Rightarrow> real \<Rightarrow> OSMElement" where
  "signal_node x y =
     \<lparr>el_type = ''node'', el_id = ''100'', tags = Some [''highway'' \<mapsto> ''traffic_signals''],
      geometry = None, el_lon = x, el_lat = y\<rparr>"

definition two_nodes :: "OSMElement list" where
  "two_nodes = [signal_node (1 / 2048) (1 / 8192), signal_node 5 5]"

definition manager_north :: SignalManager where
  "manager_north = new_SignalManager (addRoads_js [road_north] new_RoadIndex_js)"

definition some_metrics :: TrafficMetrics where
  "some_metrics =
     \<lparr>currentVolume = 1200, forecast1h = 1300, forecast4h = 900, forecast24h = 1100,
      level = HEAVY, lastUpdated = ''2025-01-01T00:00:00Z'', signalCount = 0\<rparr>"

definition example_calls :: "call list" where
  "example_calls =
     [AddRoad road_north, SetTrafficData ''osm_way_3'' some_metrics, FindNearest 0 0 30,
      LoadFromOSM (Some batch_of_ten), SetTrafficData ''osm_way_77'' some_metrics, GetAllRoads]"

definition fixed_env :: js_env where
  "fixed_env = \<lparr>random = (\<lambda>k. 1 / 2), now = 0, isoDate = (\<lambda>t. ''2025-01-01'')\<rparr>"

section \<open>Rounding to doubles\<close>

lemma double_round_0 [simp]: "double_round 0 = 0"
  by (simp add: double_round_def)

lemma round_even_of_int [simp]: "round_even (of_int k) = k"
  by (simp add: round_even_def)

lemma round_even_between:
  assumes "of_int n - 1 / 2 < y" "y < of_int n + 1 / 2"
  shows "round_even y = n"
proof (cases "of_int n \<le> y")
  case True
  with assms have "\<lfloor>y\<rfloor> = n" by (simp add: floor_eq_iff)
  with assms show ?thesis by (simp add: round_even_def)
next
  case False
  with assms have "\<lfloor>y\<rfloor> = n - 1" by (simp add: floor_eq_iff)
  with assms show ?thesis by (simp add: round_even_def)
qed

lemma round_even_near: "\<bar>of_int (round_even y) - y\<bar> \<le> 1 / 2"
proof -
  have "of_int \<lfloor>y\<rfloor> \<le> y" "y < of_int \<lfloor>y\<rfloor> + 1" by linarith+
  then show ?thesis unfolding round_even_def Let_def by auto
qed

lemma floor_log2_eq:
  assumes "2 powi e \<le> \<bar>x\<bar>" "\<bar>x\<bar> < 2 powi (e + 1)"
  shows "\<lfloor>log 2 \<bar>x\<bar>\<rfloor> = e"
proof -
  have "(0::real) < 2 powi e" by (simp add: zero_less_power_int)
  with assms(1) have pos: "0 < \<bar>x\<bar>" by linarith
  show ?thesis
    using assms powr_real_of_int' [of 2 e] powr_real_of_int' [of 2 "e + 1"]
    by (simp add: floor_log_eq_powr_iff [OF pos] del: of_int_add)
qed

lemma floor_log2_bounds:
  assumes "x \<noteq> 0"
  shows "2 powi \<lfloor>log 2 \<bar>x\<bar>\<rfloor> \<le> \<bar>x\<bar> \<and> \<bar>x\<bar> < 2 powi (\<lfloor>log 2 \<bar>x\<bar>\<rfloor> + 1)"
proof -
  have pos: "0 < \<bar>x\<bar>" using assms by simp
  from floor_log_eq_powr_iff [OF pos, of 2 "\<lfloor>log 2 \<bar>x\<bar>\<rfloor>"]
    powr_real_of_int' [of 2 "\<lfloor>log 2 \<bar>x\<bar>\<rfloor>"] powr_real_of_int' [of 2 "\<lfloor>log 2 \<bar>x\<bar>\<rfloor> + 1"]
  show ?thesis by (simp del: of_int_add)
qed

text \<open>Rounding a number whose binade is known.\<close>

lemma double_round_eval:
  assumes "2 powi e \<le> \<bar>x\<bar>" "\<bar>x\<bar> < 2 powi (e + 1)" "- 1022 \<le> e"
  shows "double_round x = of_int (round_even (x / 2 powi (e - 52))) * 2 powi (e - 52)"
proof -
  have "(0::real) < 2 powi e" by (simp add: zero_less_power_int)
  with assms(1) have "0 < \<bar>x\<bar>" by linarith
  then have "x \<noteq> 0" by simp
  moreover have "ulp_exponent x = e - 52"
    using floor_log2_eq [OF assms(1,2)] assms(3) by (simp add: ulp_exponent_def)
  ultimately show ?thesis by (simp add: double_round_def)
qed

lemma double_round_near:
  assumes "2 powi e \<le> \<bar>x\<bar>" "\<bar>x\<bar> < 2 powi (e + 1)" "- 1022 \<le> e"
    and "(of_int n - 1 / 2) * 2 powi (e - 52) < x" "x < (of_int n + 1 / 2) * 2 powi (e - 52)"
  shows "double_round x = of_int n * 2 powi (e - 52)"
proof -
  have p: "(0::real) < 2 powi (e - 52)" by (simp add: zero_less_power_int)
  have "of_int n - 1 / 2 < x / 2 powi (e - 52)" "x / 2 powi (e - 52) < of_int n + 1 / 2"
    using assms(4,5) p by (simp_all add: pos_less_divide_eq pos_divide_less_eq)
  then have "round_even (x / 2 powi (e - 52)) = n" by (rule round_even_between)
  then show ?thesis using double_round_eval [OF assms(1-3)] by simp
qed

text \<open>A number with a significand of at most 53 bits is a double, and rounds to itself.\<close>

lemma ulp_exponent_le:
  assumes "m \<noteq> 0" "\<bar>m\<bar> < 2 ^ 53" "- 1074 \<le> q"
  shows "ulp_exponent (of_int m * 2 powi q) \<le> q"
proof -
  let ?x = "of_int m * 2 powi q :: real"
  have x0: "?x \<noteq> 0" using assms(1) by simp
  have "\<bar>?x\<bar> = \<bar>of_int m\<bar> * 2 powi q" by (simp add: abs_mult)
  also have "\<dots> < 2 ^ 53 * 2 powi q"
  proof -
    have "\<bar>real_of_int m\<bar> < 2 ^ 53" using assms(2)
      by (simp flip: of_int_abs)
    then show ?thesis by (simp add: zero_less_power_int)
  qed
  also have "\<dots> = 2 powi (53 + q)"
    by (simp add: power_int_add)
  finally have up: "\<bar>?x\<bar> < 2 powi (53 + q)" .
  have "\<lfloor>log 2 \<bar>?x\<bar>\<rfloor> < 53 + q"
  proof (rule ccontr)
    assume "\<not> \<lfloor>log 2 \<bar>?x\<bar>\<rfloor> < 53 + q"
    then have "53 + q \<le> \<lfloor>log 2 \<bar>?x\<bar>\<rfloor>" by simp
    then have "(2::real) powi (53 + q) \<le> 2 powi \<lfloor>log 2 \<bar>?x\<bar>\<rfloor>"
      by (intro power_int_increasing) auto
    with floor_log2_bounds [OF x0] up show False by linarith
  qed
  with assms(3) show ?thesis by (simp add: ulp_exponent_def)
qed

lemma double_round_exact:
  assumes "\<bar>m\<bar> < 2 ^ 53" "- 1074 \<le> q"
  shows "double_round (of_int m * 2 powi q) = of_int m * 2 powi q"
proof (cases "m = 0")
  case True then show ?thesis by simp
next
  case False
  let ?x = "of_int m * 2 powi q :: real"
  define t where "t = ulp_exponent ?x"
  have t: "t \<le> q" unfolding t_def by (rule ulp_exponent_le [OF False assms])
  have "(2::real) powi q = 2 powi (q - t) * 2 powi t"
    by (simp flip: power_int_add)
  also have "(2::real) powi (q - t) = 2 ^ nat (q - t)"
    using t by (simp add: power_int_def)
  finally have pq: "(2::real) powi q = 2 ^ nat (q - t) * 2 powi t" .
  have p: "(2::real) powi t \<noteq> 0" by simp
  have xt: "?x = of_int (m * 2 ^ nat (q - t)) * 2 powi t"
    by (simp add: pq)
  have "?x / 2 powi t = of_int (m * 2 ^ nat (q - t))"
    by (subst xt) (rule nonzero_mult_div_cancel_right [OF p])
  then have "round_even (?x / 2 powi t) = m * 2 ^ nat (q - t)"
    by (simp only: round_even_of_int)
  moreover note xt [symmetric]
  ultimately show ?thesis
    using False by (simp add: double_round_def t_def)
qed

lemma double_round_dyadic:
  "\<bar>m\<bar> < 2 ^ 53 \<Longrightarrow> k \<le> 1074 \<Longrightarrow> double_round (of_int m / 2 ^ k) = of_int m / 2 ^ k"
  using double_round_exact [of m "- int k"]
  by (simp add: power_int_minus divide_inverse)

text \<open>What rounding returns is a double: rounding it again changes nothing.\<close>

lemma double_round_idem [simp]: "double_round (double_round x) = double_round x"
proof (cases "x = 0")
  case True then show ?thesis by simp
next
  case False
  define e where "e = \<lfloor>log 2 \<bar>x\<bar>\<rfloor>"
  define t where "t = ulp_exponent x"
  define n where "n = round_even (x / 2 powi t)"
  have dr: "double_round x = of_int n * 2 powi t"
    using False by (simp add: double_round_def t_def n_def)
  have t1: "e - 52 \<le> t" and t2: "- 1074 \<le> t" by (simp_all add: t_def ulp_exponent_def e_def)
  have p: "(0::real) < 2 powi t" by (simp add: zero_less_power_int)
  have "\<bar>x\<bar> < 2 powi (e + 1)" using floor_log2_bounds [OF False] by (simp add: e_def)
  also have "\<dots> \<le> 2 powi (53 + t)" using t1 by (intro power_int_increasing) auto
  also have "\<dots> = 2 ^ 53 * 2 powi t" by (simp add: power_int_add)
  finally have "\<bar>x\<bar> / 2 powi t < 2 ^ 53" using p by (simp add: pos_divide_less_eq)
  then have y: "\<bar>x / 2 powi t\<bar> < 2 ^ 53" using p by (simp add: abs_divide)
  have "\<bar>of_int n - x / 2 powi t\<bar> \<le> 1 / 2" unfolding n_def by (rule round_even_near)
  with y have "\<bar>real_of_int n\<bar> < 2 ^ 53 + 1" by linarith
  then have "real_of_int \<bar>n\<bar> < real_of_int (2 ^ 53 + 1)" by simp
  then have "\<bar>n\<bar> < 2 ^ 53 + 1" by (simp only: of_int_less_iff)
  then consider "\<bar>n\<bar> < 2 ^ 53" | "n = 2 ^ 53" | "n = - (2 ^ 53)" by linarith
  then show ?thesis
  proof cases
    case 1
    then show ?thesis unfolding dr by (rule double_round_exact [OF _ t2])
  next
    case 2
    have "of_int n * 2 powi t = (of_int 1 * 2 powi (53 + t) :: real)"
      using 2 by (simp add: power_int_add)
    moreover have "double_round (of_int 1 * 2 powi (53 + t)) = of_int 1 * 2 powi (53 + t)"
      using t2 by (intro double_round_exact) auto
    ultimately show ?thesis unfolding dr by simp
  next
    case 3
    have "of_int n * 2 powi t = (of_int (- 1) * 2 powi (53 + t) :: real)"
      using 3 by (simp add: power_int_add)
    moreover have "double_round (of_int (- 1) * 2 powi (53 + t)) = of_int (- 1) * 2 powi (53 + t)"
      using t2 by (intro double_round_exact) auto
    ultimately show ?thesis unfolding dr by simp
  qed
qed


section \<open>The selection loop\<close>

lemma fold_consider_keep:
  "\<forall>T. Some T \<in> set cs \<longrightarrow> \<not> xless (distance T) d0 \<Longrightarrow>
   fold (consider_candidate distance) cs (r0, d0) = (r0, d0)"
proof (induction cs)
  case Nil then show ?case by simp
next
  case (Cons c cs)
  have "consider_candidate distance c (r0, d0) = (r0, d0)"
  proof (cases c)
    case None then show ?thesis by (simp add: consider_candidate_def)
  next
    case (Some road)
    with Cons.prems have "\<not> xless (distance road) d0" by simp
    then show ?thesis using Some
      by (cases "distance road") (simp_all add: consider_candidate_def)
  qed
  with Cons show ?case by simp
qed

lemma fold_consider_result:
  "fold (consider_candidate distance) cs (r0, d0) = (r, d) \<Longrightarrow>
   (\<forall>T. Some T \<in> set cs \<longrightarrow> \<not> xless (distance T) d) \<and> d \<le> d0 \<and>
   ((r = r0 \<and> d = d0) \<or> (\<exists>S. r = Some S \<and> Some S \<in> set cs \<and> distance S = Num d \<and> d < d0))"
proof (induction cs arbitrary: r0 d0)
  case Nil then show ?case by simp
next
  case (Cons c cs)
  obtain r1 d1 where c1: "consider_candidate distance c (r0, d0) = (r1, d1)"
    by (cases "consider_candidate distance c (r0, d0)")
  with Cons.prems have f: "fold (consider_candidate distance) cs (r1, d1) = (r, d)" by simp
  note ih = Cons.IH [OF f]
  have step: "d1 \<le> d0 \<and> (\<forall>T. c = Some T \<longrightarrow> \<not> xless (distance T) d1) \<and>
     ((r1 = r0 \<and> d1 = d0) \<or> (\<exists>S. r1 = Some S \<and> c = Some S \<and> distance S = Num d1 \<and> d1 < d0))"
    using c1 by (auto simp: consider_candidate_def split: option.splits xnum.splits if_splits)
  have mono: "\<And>T. \<not> xless (distance T) d1 \<Longrightarrow> \<not> xless (distance T) d"
    using ih by (case_tac "distance T") auto
  show ?case using ih step mono by auto
qed

section \<open>The distance loop\<close>

lemma minDistance_loop_NaN: "minDistance_loop f NaN ps = NaN"
  by (induction f NaN ps rule: minDistance_loop.induct) simp_all

section \<open>The index after a sequence of insertions\<close>


lemma roads_fold_addRoad_js:
  "roads (fold addRoad_js segs idx) = fold (\<lambda>s. AList.update (road_id s) s) segs (roads idx)"
  by (induction segs arbitrary: idx) (simp_all add: addRoad_js_def Let_def)



lemma map_of_fold_update_distinct:
  "distinct (map road_id segs) \<Longrightarrow> S \<in> set segs \<Longrightarrow>
   map_of (fold (\<lambda>s. AList.update (road_id s) s) segs al) (road_id S) = Some S"
proof (induction segs arbitrary: al)
  case Nil then show ?case by simp
next
  case (Cons x xs)
  show ?case
  proof (cases "S \<in> set xs")
    case True
    with Cons show ?thesis by simp
  next
    case False
    with Cons.prems have [simp]: "S = x" and notin: "road_id x \<notin> road_id ` set xs" by auto
    have "map_of (fold (\<lambda>s. AList.update (road_id s) s) xs al') (road_id x) = map_of al' (road_id x)" for al'
      using notin by (induction xs arbitrary: al') (auto simp: update_conv')
    then show ?thesis by (simp add: update_conv')
  qed
qed

section \<open>What findNearest returns\<close>

lemma pointToLineDistance_js_eq: "pointToLineDistance_js = pointToLineDistance"
  by (intro ext) (auto simp: pointToLineDistance_js_def pointToLineDistance_def Let_def max_def min_def)

lemma distanceToRoad_js_eq: "distanceToRoad_js = distanceToRoad"
  by (intro ext) (simp add: distanceToRoad_js_def distanceToRoad_def pointToLineDistance_js_eq)


lemma nearest_loop_Some:
  assumes "nearest_loop distance cs R = Some S"
  shows "Some S \<in> set cs \<and> (\<exists>d. distance S = Num d \<and> d < R \<and>
           (\<forall>T. Some T \<in> set cs \<longrightarrow> \<not> xless (distance T) d))"
proof -
  obtain r d where f: "fold (consider_candidate distance) cs (None, R) = (r, d)"
    by (cases "fold (consider_candidate distance) cs (None, R)")
  with assms have "r = Some S" by (simp add: nearest_loop_def)
  with fold_consider_result [OF f] show ?thesis by auto
qed


lemma cellRoads_addRoad_js:
  "cellRoads (spatialGrid (addRoad_js x idx)) k =
     cellRoads (spatialGrid idx) k @ (if cell_of x = k then [road_id x] else [])"
  by (auto simp: addRoad_js_def Let_def cellRoads_def cell_of_def update_conv' split: option.splits)

lemma cellRoads_fold_addRoad_js:
  "cellRoads (spatialGrid (fold addRoad_js segs idx)) k =
     cellRoads (spatialGrid idx) k @ map road_id (filter (\<lambda>s. cell_of s = k) segs)"
  by (induction segs arbitrary: idx) (simp_all add: cellRoads_addRoad_js)




lemma roads_addRoads_js_distinct:
  "distinct (map road_id segs) \<Longrightarrow> S \<in> set segs \<Longrightarrow>
   map_of (roads (addRoads_js segs new_RoadIndex_js)) (road_id S) = Some S"
  by (simp add: addRoads_js_def roads_fold_addRoad_js map_of_fold_update_distinct)












section \<open>Evaluation on examples\<close>

text \<open>
  The distance to a road of two points at one latitude, when the projection of the query
  point is found exactly: what is left is the rounded difference in latitude, squared,
  rooted and turned into metres.
\<close>

lemma pld_level:
  assumes "fsub x2 x1 = C" "fsub px x1 = A" "fmul C C \<noteq> 0"
    and "fdiv (fmul A C) (fmul C C) = p" "0 \<le> p" "p \<le> 1"
    and "fadd x1 (fmul p C) = px" "double_round y = y"
  shows "pointToLineDistance px py x1 y x2 y = fsqrt (fmul (fsub py y) (fsub py y))"
proof -
  have D: "fsub y y = 0" by (simp add: fsub_def)
  have dot: "fadd (fmul A C) (fmul b 0) = fmul A C" for b
    by (simp add: fadd_def fmul_def)
  have lenSq: "fadd (fmul C C) (fmul 0 0) = fmul C C"
    by (simp add: fadd_def fmul_def)
  have param: "(if p < 0 then 0 else if 1 < p then 1 else p) = p"
    using assms(5,6) by simp
  have yy: "fadd y (fmul p 0) = y"
    by (simp add: fadd_def fmul_def assms(8))
  have dx: "fsub px px = 0" by (simp add: fsub_def)
  have sq: "fadd (fmul 0 0) (fmul b b) = fmul b b" for b
    by (simp add: fadd_def fmul_def)
  have "pointToLineDistance px py x1 y x2 y =
      (if fmul C C = 0 then fsqrt (fadd (fmul A A) (fmul (fsub py y) (fsub py y)))
       else fsqrt (fmul (fsub py y) (fsub py y)))"
    unfolding pointToLineDistance_def Let_def assms(1,2) D dot lenSq assms(4) param assms(7) yy dx sq ..
  with assms(3) show ?thesis by simp
qed

lemma distanceToRoad_level:
  assumes "fsub east west = C" "fsub lon west = A" "fmul C C \<noteq> 0"
    and "fdiv (fmul A C) (fmul C C) = p" "0 \<le> p" "p \<le> 1"
    and "fadd west (fmul p C) = lon" "double_round y = y"
  shows "distanceToRoad lon lat (level_road i west east y)
    = Num (fmul (fsqrt (fmul (fsub lat y) (fsub lat y))) 111320)"
  by (simp add: distanceToRoad_def level_road_def pld_level [OF assms] metersPerDegree_def)

lemma level_road_fields [simp]:
  "road_id (level_road i west east y) = i"
  "midpoint (level_road i west east y) = (east, y)"
  "bbox (level_road i west east y) = (west, y, east, y)"
  by (simp_all add: level_road_def)

lemma ring_offsets: "[- searchRadius .. searchRadius] = [- 2, - 1, 0, 1, 2]"
  unfolding searchRadius_def by code_simp

text \<open>The doubles the examples are made of: each rounds to itself.\<close>

lemma exact_doubles:
  "double_round (1 / 2) = 1 / 2"
  "double_round (1 / 32) = 1 / 32"
  "double_round (1 / 64) = 1 / 64"
  "double_round (13915 / 512) = 13915 / 512"
  "double_round (1 / 1024) = 1 / 1024"
  "double_round (13915 / 1024) = 13915 / 1024"
  "double_round (1 / 2048) = 1 / 2048"
  "double_round (13915 / 2048) = 13915 / 2048"
  "double_round (41745 / 2048) = 41745 / 2048"
  "double_round (- (1 / 4096)) = - (1 / 4096)"
  "double_round (1 / 4096) = 1 / 4096"
  "double_round (41745 / 4096) = 41745 / 4096"
  "double_round (1 / 8192) = 1 / 8192"
  "double_round (3 / 8192) = 3 / 8192"
  "double_round (- (3 / 16384)) = - (3 / 16384)"
  "double_round (- (1 / 16384)) = - (1 / 16384)"
  "double_round (1 / 16384) = 1 / 16384"
  "double_round (3 / 16384) = 3 / 16384"
  "double_round (- (3 / 32768)) = - (3 / 32768)"
  "double_round (3 / 32768) = 3 / 32768"
  "double_round (1 / 65536) = 1 / 65536"
  "double_round (1 / 1048576) = 1 / 1048576"
  "double_round (1 / 2097152) = 1 / 2097152"
  "double_round (1 / 16777216) = 1 / 16777216"
  "double_round (1 / 67108864) = 1 / 67108864"
  "double_round (1 / 268435456) = 1 / 268435456"
  "double_round (9 / 268435456) = 9 / 268435456"
  "double_round (9 / 1073741824) = 9 / 1073741824"
  using double_round_dyadic [of "1" 1]
    double_round_dyadic [of "1" 5]
    double_round_dyadic [of "1" 6]
    double_round_dyadic [of "13915" 9]
    double_round_dyadic [of "1" 10]
    double_round_dyadic [of "13915" 10]
    double_round_dyadic [of "1" 11]
    double_round_dyadic [of "13915" 11]
    double_round_dyadic [of "41745" 11]
    double_round_dyadic [of "-1" 12]
    double_round_dyadic [of "1" 12]
    double_round_dyadic [of "41745" 12]
    double_round_dyadic [of "1" 13]
    double_round_dyadic [of "3" 13]
    double_round_dyadic [of "-3" 14]
    double_round_dyadic [of "-1" 14]
    double_round_dyadic [of "1" 14]
    double_round_dyadic [of "3" 14]
    double_round_dyadic [of "-3" 15]
    double_round_dyadic [of "3" 15]
    double_round_dyadic [of "1" 16]
    double_round_dyadic [of "1" 20]
    double_round_dyadic [of "1" 21]
    double_round_dyadic [of "1" 24]
    double_round_dyadic [of "1" 26]
    double_round_dyadic [of "1" 28]
    double_round_dyadic [of "9" 28]
    double_round_dyadic [of "9" 30]
  by simp_all

lemma sqrt_examples:
  "sqrt (1 / 268435456) = 1 / 16384"
  "sqrt (9 / 1073741824) = 3 / 32768"
  "sqrt (1 / 67108864) = 1 / 8192"
  "sqrt (9 / 268435456) = 3 / 16384"
  "sqrt (1 / 16777216) = 1 / 4096"
  by (rule real_sqrt_unique; simp add: power2_eq_square)+

text \<open>The double that \<open>0.001\<close> denotes lies a little above one thousandth.\<close>

lemma gridSize_value: "gridSize = 1152921504606847 / 1152921504606846976"
proof -
  have "double_round (1 / 1000) = 1152921504606847 / 1152921504606846976"
    using double_round_near [of "-10" "1 / 1000" "4611686018427388"] by simp
  then show ?thesis by (simp add: gridSize_def)
qed

text \<open>The quotients by \<open>gridSize\<close> behind the cells of the examples.\<close>

lemma quotient_examples:
  "fdiv (1 / 1024) gridSize = 125 / 128"
  "fdiv (1 / 32) gridSize = 125 / 4"
  "fdiv (3 / 8192) gridSize = 375 / 1024"
  "fdiv (3 / 16384) gridSize = 375 / 2048"
  "fdiv (- (3 / 16384)) gridSize = - (375 / 2048)"
  "fdiv (1 / 2048) gridSize = 125 / 256"
  "fdiv (1 / 8192) gridSize = 125 / 1024"
  "fdiv (9 / 32768) gridSize = 1125 / 4096"
  "fdiv 5 gridSize = 5000"
proof -
  have "double_round (1125899906842624 / 1152921504606847) = 125 / 128"
    using double_round_near [of "-1" "1125899906842624 / 1152921504606847" "8796093022208000"] by simp
  then show "fdiv (1 / 1024) gridSize = 125 / 128"
    by (simp add: fdiv_def gridSize_value)
  have "double_round (36028797018963968 / 1152921504606847) = 125 / 4"
    using double_round_near [of "4" "36028797018963968 / 1152921504606847" "8796093022208000"] by simp
  then show "fdiv (1 / 32) gridSize = 125 / 4"
    by (simp add: fdiv_def gridSize_value)
  have "double_round (422212465065984 / 1152921504606847) = 375 / 1024"
    using double_round_near [of "-2" "422212465065984 / 1152921504606847" "6597069766656000"] by simp
  then show "fdiv (3 / 8192) gridSize = 375 / 1024"
    by (simp add: fdiv_def gridSize_value)
  have "double_round (211106232532992 / 1152921504606847) = 375 / 2048"
    using double_round_near [of "-3" "211106232532992 / 1152921504606847" "6597069766656000"] by simp
  then show "fdiv (3 / 16384) gridSize = 375 / 2048"
    by (simp add: fdiv_def gridSize_value)
  have "double_round (- (211106232532992 / 1152921504606847)) = - (375 / 2048)"
    using double_round_near [of "-3" "- (211106232532992 / 1152921504606847)" "-6597069766656000"] by simp
  then show "fdiv (- (3 / 16384)) gridSize = - (375 / 2048)"
    by (simp add: fdiv_def gridSize_value)
  have "double_round (562949953421312 / 1152921504606847) = 125 / 256"
    using double_round_near [of "-2" "562949953421312 / 1152921504606847" "8796093022208000"] by simp
  then show "fdiv (1 / 2048) gridSize = 125 / 256"
    by (simp add: fdiv_def gridSize_value)
  have "double_round (140737488355328 / 1152921504606847) = 125 / 1024"
    using double_round_near [of "-4" "140737488355328 / 1152921504606847" "8796093022208000"] by simp
  then show "fdiv (1 / 8192) gridSize = 125 / 1024"
    by (simp add: fdiv_def gridSize_value)
  have "double_round (316659348799488 / 1152921504606847) = 1125 / 4096"
    using double_round_near [of "-2" "316659348799488 / 1152921504606847" "4947802324992000"] by simp
  then show "fdiv (9 / 32768) gridSize = 1125 / 4096"
    by (simp add: fdiv_def gridSize_value)
  have "double_round (5764607523034234880 / 1152921504606847) = 5000"
    using double_round_near [of "12" "5764607523034234880 / 1152921504606847" "5497558138880000"] by simp
  then show "fdiv 5 gridSize = 5000"
    by (simp add: fdiv_def gridSize_value)
qed

lemma cell_examples:
  "\<lfloor>fdiv 0 gridSize\<rfloor> = 0"
  "\<lfloor>fdiv (1 / 1024) gridSize\<rfloor> = 0"
  "\<lfloor>fdiv (1 / 32) gridSize\<rfloor> = 31"
  "\<lfloor>fdiv (3 / 8192) gridSize\<rfloor> = 0"
  "\<lfloor>fdiv (3 / 16384) gridSize\<rfloor> = 0"
  "\<lfloor>fdiv (- (3 / 16384)) gridSize\<rfloor> = - 1"
  "\<lfloor>fdiv (1 / 2048) gridSize\<rfloor> = 0"
  "\<lfloor>fdiv (1 / 8192) gridSize\<rfloor> = 0"
  "\<lfloor>fdiv (9 / 32768) gridSize\<rfloor> = 0"
  "\<lfloor>fdiv 5 gridSize\<rfloor> = 5000"
  by (simp_all add: quotient_examples) (simp add: fdiv_def)

text \<open>
  Rounding decides the cell: the double that \<open>0.009\<close> denotes lies below nine
  thousandths, and its rounded quotient by \<open>gridSize\<close> is 9.
\<close>

lemma cell_of_nine_thousandths:
  "double_round (9 / 1000) = 5188146770730811 / 576460752303423488"
  "double_round (9 / 1000) < 9 / 1000"
  "\<lfloor>fdiv (double_round (9 / 1000)) gridSize\<rfloor> = 9"
proof -
  show a: "double_round (9 / 1000) = 5188146770730811 / 576460752303423488"
    using double_round_near [of "-7" "9 / 1000" "5188146770730811"] by simp
  show "double_round (9 / 1000) < 9 / 1000" by (simp add: a)
  have "double_round (10376293541461622 / 1152921504606847) = 9"
    using double_round_near [of "3" "10376293541461622 / 1152921504606847" "5066549580791808"] by simp
  then show "\<lfloor>fdiv (double_round (9 / 1000)) gridSize\<rfloor> = 9"
    by (simp add: a fdiv_def gridSize_value)
qed

lemmas example_defs = road_long_def road_short_def road_north_def road_south_def road_edge_def

lemma example_fields:
  "road_id road_long = ''osm_way_1''" "road_id road_short = ''osm_way_2''"
  "road_id road_north = ''osm_way_3''" "road_id road_south = ''osm_way_4''"
  "road_id road_edge = ''osm_way_5''"
  "midpoint road_long = (1 / 32, 0)"
  "midpoint road_short = (1 / 1024, 3 / 8192)"
  "midpoint road_north = (1 / 1024, 3 / 16384)"
  "midpoint road_south = (1 / 1024, - (3 / 16384))"
  "bbox road_long = (0, 0, 1 / 32, 0)"
  "bbox road_short = (0, 3 / 8192, 1 / 1024, 3 / 8192)"
  "bbox road_north = (0, 3 / 16384, 1 / 1024, 3 / 16384)"
  "bbox road_south = (0, - (3 / 16384), 1 / 1024, - (3 / 16384))"
  "bbox road_edge = (0, 1 / 2 ^ 13 - 1 / 2 ^ 66, 1 / 1024, 1 / 2 ^ 13 - 1 / 2 ^ 66)"
  by (simp_all add: example_defs)

lemma example_roads_differ:
  "road_short \<noteq> road_north" "road_north \<noteq> road_south" "road_long \<noteq> road_short"
  using example_fields(1-4) by auto

text \<open>The radius in degrees, and the search boxes of the examples.\<close>

lemma radius_deg_value: "fdiv 30 111320 = radius_deg"
proof -
  have "double_round (3 / 11132) = 4971274903083781 / 18446744073709551616"
    using double_round_near [of "-12" "3 / 11132" "4971274903083781"] by simp
  then show ?thesis by (simp add: fdiv_def radius_deg_def)
qed

lemma radius_25_value: "fdiv 25 111320 = 4142729085903151 / 18446744073709551616"
proof -
  have "double_round (5 / 22264) = 4142729085903151 / 18446744073709551616"
    using double_round_near [of "-13" "5 / 22264" "8285458171806302"] by simp
  then show ?thesis by (simp add: fdiv_def)
qed


lemma searchBbox_q0:
  "searchBbox (1 / 2048) 0 25 =
     \<lparr>minX = 4864470168837841 / 18446744073709551616, minY = - (4142729085903151 / 18446744073709551616),
        maxX = 821870521290259 / 1152921504606846976, maxY = 4142729085903151 / 18446744073709551616\<rparr>"
proof -
  have a: "double_round (4864470168837841 / 18446744073709551616) = 4864470168837841 / 18446744073709551616"
    using double_round_near [of "-12" "4864470168837841 / 18446744073709551616" "4864470168837841"] by simp
  have b: "double_round (- (4142729085903151 / 18446744073709551616)) = - (4142729085903151 / 18446744073709551616)"
    using double_round_near [of "-13" "- (4142729085903151 / 18446744073709551616)" "-8285458171806302"] by simp
  have c: "double_round (13149928340644143 / 18446744073709551616) = 821870521290259 / 1152921504606846976"
    using double_round_eval [of "-11" "13149928340644143 / 18446744073709551616"] by (simp add: round_even_def)
  have d: "double_round (4142729085903151 / 18446744073709551616) = 4142729085903151 / 18446744073709551616"
    using double_round_near [of "-13" "4142729085903151 / 18446744073709551616" "8285458171806302"] by simp
  show ?thesis
    by (simp add: searchBbox_def Let_def radius_25_value fsub_def fadd_def a b c d)
qed

text \<open>The distances of the examples, in metres.\<close>

lemma distance_q1:
  "distanceToRoad (1 / 2048) (1 / 8192) road_north = Num (13915 / 2048)"
  "distanceToRoad (1 / 2048) (1 / 8192) road_short = Num (13915 / 512)"
  "distanceToRoad (1 / 2048) (1 / 8192) road_long = Num (13915 / 1024)"
proof -
  show "distanceToRoad (1 / 2048) (1 / 8192) road_north = Num (13915 / 2048)"
    unfolding road_north_def
    by (subst distanceToRoad_level [where C = "1 / 1024" and A = "1 / 2048" and p = "1 / 2"])
       (simp_all add: fsub_def fadd_def fmul_def fdiv_def fsqrt_def exact_doubles sqrt_examples)
  show "distanceToRoad (1 / 2048) (1 / 8192) road_short = Num (13915 / 512)"
    unfolding road_short_def
    by (subst distanceToRoad_level [where C = "1 / 1024" and A = "1 / 2048" and p = "1 / 2"])
       (simp_all add: fsub_def fadd_def fmul_def fdiv_def fsqrt_def exact_doubles sqrt_examples)
  show "distanceToRoad (1 / 2048) (1 / 8192) road_long = Num (13915 / 1024)"
    unfolding road_long_def
    by (subst distanceToRoad_level [where C = "1 / 32" and A = "1 / 2048" and p = "1 / 64"])
       (simp_all add: fsub_def fadd_def fmul_def fdiv_def fsqrt_def exact_doubles sqrt_examples)
qed

lemma distance_q0:
  "distanceToRoad (1 / 2048) 0 road_north = Num (41745 / 2048)"
  "distanceToRoad (1 / 2048) 0 road_south = Num (41745 / 2048)"
proof -
  show "distanceToRoad (1 / 2048) 0 road_north = Num (41745 / 2048)"
    unfolding road_north_def
    by (subst distanceToRoad_level [where C = "1 / 1024" and A = "1 / 2048" and p = "1 / 2"])
       (simp_all add: fsub_def fadd_def fmul_def fdiv_def fsqrt_def exact_doubles sqrt_examples)
  show "distanceToRoad (1 / 2048) 0 road_south = Num (41745 / 2048)"
    unfolding road_south_def
    by (subst distanceToRoad_level [where C = "1 / 1024" and A = "1 / 2048" and p = "1 / 2"])
       (simp_all add: fsub_def fadd_def fmul_def fdiv_def fsqrt_def exact_doubles sqrt_examples)
qed

lemma distance_q2:
  "distanceToRoad (1 / 2048) (9 / 32768) road_short = Num (41745 / 4096)"
  "distanceToRoad (1 / 2048) (9 / 32768) road_north = Num (41745 / 4096)"
proof -
  show "distanceToRoad (1 / 2048) (9 / 32768) road_short = Num (41745 / 4096)"
    unfolding road_short_def
    by (subst distanceToRoad_level [where C = "1 / 1024" and A = "1 / 2048" and p = "1 / 2"])
       (simp_all add: fsub_def fadd_def fmul_def fdiv_def fsqrt_def exact_doubles sqrt_examples)
  show "distanceToRoad (1 / 2048) (9 / 32768) road_north = Num (41745 / 4096)"
    unfolding road_north_def
    by (subst distanceToRoad_level [where C = "1 / 1024" and A = "1 / 2048" and p = "1 / 2"])
       (simp_all add: fsub_def fadd_def fmul_def fdiv_def fsqrt_def exact_doubles sqrt_examples)
qed







text \<open>
  The example for the R-tree. \<open>road_upright\<close> ends \<open>1 / 2 ^ 62\<close>, one step of the
  doubles at that latitude, short of \<open>upright_lat - radius_deg\<close>. Its upper end is the
  nearest point; the code reaches it as \<open>y1 + 1 * (y2 - y1)\<close>, where the difference and
  the sum are rounded and come out one step above \<open>y2\<close>. The distance is computed
  from there and is two doubles below 30 m; the distance of \<open>road_east\<close> is one
  double below 30 m. The lower edge of the search box lies one step above the box of
  \<open>road_upright\<close>.
\<close>

lemma upright_rounding:
  "double_round (1544598385126915389484606193025 / 21267647932558653966460912964485513216) = 5487515811093557 / 75557863725914323419136"
  "double_round (5487515811093557 / 75557863725914323419136) = 5487515811093557 / 75557863725914323419136"
  "double_round (1125899906842625 / 1180591620717411303424) = 1125899906842625 / 1180591620717411303424"
  "double_round (5070602400912922109586440192001 / 5316911983139663491615228241121378304) = 1125899906842625 / 1180591620717411303424"
  "double_round (3234945944240349747955448339889 / 2658455991569831745807614120560689152) = 5746418353141447 / 4722366482869645213696"
  "double_round (5746418353141447 / 4722366482869645213696) = 5746418353141447 / 4722366482869645213696"
  "double_round (1242818725770945 / 4611686018427387904) = 1242818725770945 / 4611686018427387904"
  "double_round (9007199254740995 / 9223372036854775808) = 2251799813685249 / 2305843009213693952"
  "double_round (2251799813685249 / 2305843009213693952) = 2251799813685249 / 2305843009213693952"
  "double_round (9007199254740999 / 9223372036854775808) = 1125899906842625 / 1152921504606846976"
  "double_round (11492836706282887 / 9223372036854775808) = 1436604588285361 / 1152921504606846976"
  "double_round (5746418353141447 / 4503599627370500) = 2873209176570721 / 2251799813685248"
  "double_round (17293822569102699675 / 576460752303423488) = 4222124650659839 / 140737488355328"
proof -
  show "double_round (1544598385126915389484606193025 / 21267647932558653966460912964485513216) = 5487515811093557 / 75557863725914323419136"
    using double_round_near [of "-24" "1544598385126915389484606193025 / 21267647932558653966460912964485513216" "5487515811093557"] by simp
  show "double_round (5487515811093557 / 75557863725914323419136) = 5487515811093557 / 75557863725914323419136"
    using double_round_near [of "-24" "5487515811093557 / 75557863725914323419136" "5487515811093557"] by simp
  show "double_round (1125899906842625 / 1180591620717411303424) = 1125899906842625 / 1180591620717411303424"
    using double_round_near [of "-20" "1125899906842625 / 1180591620717411303424" "4503599627370500"] by simp
  show "double_round (5070602400912922109586440192001 / 5316911983139663491615228241121378304) = 1125899906842625 / 1180591620717411303424"
    using double_round_near [of "-20" "5070602400912922109586440192001 / 5316911983139663491615228241121378304" "4503599627370500"] by simp
  show "double_round (3234945944240349747955448339889 / 2658455991569831745807614120560689152) = 5746418353141447 / 4722366482869645213696"
    using double_round_near [of "-20" "3234945944240349747955448339889 / 2658455991569831745807614120560689152" "5746418353141447"] by simp
  show "double_round (5746418353141447 / 4722366482869645213696) = 5746418353141447 / 4722366482869645213696"
    using double_round_near [of "-20" "5746418353141447 / 4722366482869645213696" "5746418353141447"] by simp
  show "double_round (1242818725770945 / 4611686018427387904) = 1242818725770945 / 4611686018427387904"
    using double_round_near [of "-12" "1242818725770945 / 4611686018427387904" "4971274903083780"] by simp
  show "double_round (9007199254740995 / 9223372036854775808) = 2251799813685249 / 2305843009213693952"
    using double_round_eval [of "-10" "9007199254740995 / 9223372036854775808"] by (simp add: round_even_def)
  show "double_round (2251799813685249 / 2305843009213693952) = 2251799813685249 / 2305843009213693952"
    using double_round_near [of "-10" "2251799813685249 / 2305843009213693952" "4503599627370498"] by simp
  show "double_round (9007199254740999 / 9223372036854775808) = 1125899906842625 / 1152921504606846976"
    using double_round_eval [of "-10" "9007199254740999 / 9223372036854775808"] by (simp add: round_even_def)
  show "double_round (11492836706282887 / 9223372036854775808) = 1436604588285361 / 1152921504606846976"
    using double_round_eval [of "-10" "11492836706282887 / 9223372036854775808"] by (simp add: round_even_def)
  show "double_round (5746418353141447 / 4503599627370500) = 2873209176570721 / 2251799813685248"
    using double_round_near [of "0" "5746418353141447 / 4503599627370500" "5746418353141442"] by simp
  show "double_round (17293822569102699675 / 576460752303423488) = 4222124650659839 / 140737488355328"
    using double_round_near [of "4" "17293822569102699675 / 576460752303423488" "8444249301319678"] by simp
qed

lemma upright_root: "double_round (sqrt (5487515811093557 / 75557863725914323419136)) = 1242818725770945 / 4611686018427387904"
proof -
  let ?s = "5487515811093557 / 75557863725914323419136 :: real"
  have lo: "9942549806167559 / 36893488147419103232 < sqrt ?s"
    by (rule real_less_rsqrt) (simp add: power2_eq_square)
  have hi: "sqrt ?s < 9942549806167561 / 36893488147419103232"
    by (rule real_less_lsqrt) (simp_all add: power2_eq_square)
  have "double_round (sqrt ?s) = of_int 4971274903083780 * 2 powi (-12 - 52)"
    using lo hi by (intro double_round_near) simp_all
  then show ?thesis by simp
qed

lemma upright_values:
  "upright_lat = 5746418353141445 / 4611686018427387904" "radius_deg = 4971274903083781 / 18446744073709551616"
  by (simp_all add: upright_lat_def radius_deg_def)

lemma distance_upright: "distanceToRoad 0 upright_lat road_upright = Num (30 - 2 / 2 ^ 48)"
  by (simp add: distanceToRoad_def road_upright_def two_point_road_def metersPerDegree_def
      pointToLineDistance_def Let_def fadd_def fsub_def fmul_def fdiv_def fsqrt_def
      upright_values upright_rounding upright_root)

lemma east_rounding:
  "double_round (- (24713574162030656174303505255961 / 340282366920938463463374607431768211456)) = - (5487515811093559 / 75557863725914323419136)"
  "double_round (24713574162030656174303505255961 / 340282366920938463463374607431768211456) = 5487515811093559 / 75557863725914323419136"
  "double_round (- (5487515811093559 / 75557863725914323419136)) = - (5487515811093559 / 75557863725914323419136)"
  "double_round (5487515811093559 / 75557863725914323419136) = 5487515811093559 / 75557863725914323419136"
  "double_round (- (4971274903083781 / 18446744073709551616)) = - (4971274903083781 / 18446744073709551616)"
  "double_round (4971274903083781 / 18446744073709551616) = 4971274903083781 / 18446744073709551616"
  "double_round (5746418353141445 / 4611686018427387904) = 5746418353141445 / 4611686018427387904"
  "double_round (- 1) = - 1"
  "double_round (69175290276410812615 / 2305843009213693952) = 8444249301319679 / 281474976710656"
proof -
  show "double_round (- (24713574162030656174303505255961 / 340282366920938463463374607431768211456)) = - (5487515811093559 / 75557863725914323419136)"
    using double_round_near [of "-24" "- (24713574162030656174303505255961 / 340282366920938463463374607431768211456)" "-5487515811093559"] by simp
  show "double_round (24713574162030656174303505255961 / 340282366920938463463374607431768211456) = 5487515811093559 / 75557863725914323419136"
    using double_round_near [of "-24" "24713574162030656174303505255961 / 340282366920938463463374607431768211456" "5487515811093559"] by simp
  show "double_round (- (5487515811093559 / 75557863725914323419136)) = - (5487515811093559 / 75557863725914323419136)"
    using double_round_near [of "-24" "- (5487515811093559 / 75557863725914323419136)" "-5487515811093559"] by simp
  show "double_round (5487515811093559 / 75557863725914323419136) = 5487515811093559 / 75557863725914323419136"
    using double_round_near [of "-24" "5487515811093559 / 75557863725914323419136" "5487515811093559"] by simp
  show "double_round (- (4971274903083781 / 18446744073709551616)) = - (4971274903083781 / 18446744073709551616)"
    using double_round_near [of "-12" "- (4971274903083781 / 18446744073709551616)" "-4971274903083781"] by simp
  show "double_round (4971274903083781 / 18446744073709551616) = 4971274903083781 / 18446744073709551616"
    using double_round_near [of "-12" "4971274903083781 / 18446744073709551616" "4971274903083781"] by simp
  show "double_round (5746418353141445 / 4611686018427387904) = 5746418353141445 / 4611686018427387904"
    using double_round_near [of "-10" "5746418353141445 / 4611686018427387904" "5746418353141445"] by simp
  show "double_round (- 1) = - 1"
    using double_round_near [of "0" "- 1" "-4503599627370496"] by simp
  show "double_round (69175290276410812615 / 2305843009213693952) = 8444249301319679 / 281474976710656"
    using double_round_near [of "4" "69175290276410812615 / 2305843009213693952" "8444249301319679"] by simp
qed

lemma east_root: "double_round (sqrt (5487515811093559 / 75557863725914323419136)) = 4971274903083781 / 18446744073709551616"
proof -
  let ?s = "5487515811093559 / 75557863725914323419136 :: real"
  have lo: "9942549806167561 / 36893488147419103232 < sqrt ?s"
    by (rule real_less_rsqrt) (simp add: power2_eq_square)
  have hi: "sqrt ?s < 9942549806167563 / 36893488147419103232"
    by (rule real_less_lsqrt) (simp_all add: power2_eq_square)
  have "double_round (sqrt ?s) = of_int 4971274903083781 * 2 powi (-12 - 52)"
    using lo hi by (intro double_round_near) simp_all
  then show ?thesis by simp
qed

lemma distance_east: "distanceToRoad 0 upright_lat road_east = Num (30 - 1 / 2 ^ 48)"
  by (simp add: distanceToRoad_def road_east_def two_point_road_def metersPerDegree_def
      pointToLineDistance_def Let_def fadd_def fsub_def fmul_def fdiv_def fsqrt_def
      upright_values east_rounding east_root)

lemma upright_box_rounding:
  "double_round (- (4971274903083781 / 18446744073709551616)) = - (4971274903083781 / 18446744073709551616)"
  "double_round (4971274903083781 / 18446744073709551616) = 4971274903083781 / 18446744073709551616"
  "double_round (18014398509481999 / 18446744073709551616) = 1125899906842625 / 1152921504606846976"
  "double_round (27956948315649561 / 18446744073709551616) = 3494618539456195 / 2305843009213693952"
proof -
  show "double_round (- (4971274903083781 / 18446744073709551616)) = - (4971274903083781 / 18446744073709551616)"
    using double_round_near [of "-12" "- (4971274903083781 / 18446744073709551616)" "-4971274903083781"] by simp
  show "double_round (4971274903083781 / 18446744073709551616) = 4971274903083781 / 18446744073709551616"
    using double_round_near [of "-12" "4971274903083781 / 18446744073709551616" "4971274903083781"] by simp
  show "double_round (18014398509481999 / 18446744073709551616) = 1125899906842625 / 1152921504606846976"
    using double_round_near [of "-10" "18014398509481999 / 18446744073709551616" "4503599627370500"] by simp
  show "double_round (27956948315649561 / 18446744073709551616) = 3494618539456195 / 2305843009213693952"
    using double_round_near [of "-10" "27956948315649561 / 18446744073709551616" "6989237078912390"] by simp
qed

lemma searchBbox_upright:
  "searchBbox 0 upright_lat 30 =
     \<lparr>minX = - (4971274903083781 / 18446744073709551616), minY = 1125899906842625 / 1152921504606846976,
        maxX = 4971274903083781 / 18446744073709551616, maxY = 3494618539456195 / 2305843009213693952\<rparr>"
  by (simp add: searchBbox_def Let_def radius_deg_value fsub_def fadd_def upright_values
      upright_box_rounding)

lemma upright_fields:
  "road_id road_upright = ''osm_way_6''" "road_id road_east = ''osm_way_7''"
  "bbox road_upright = (0, 3 / 2 ^ 63, 0, 1 / 2 ^ 10 + 3 / 2 ^ 62)"
  "bbox road_east = (radius_deg, upright_lat, 2 * radius_deg, upright_lat)"
  by (simp_all add: road_upright_def road_east_def two_point_road_def radius_deg_def)

lemma upright_boxes:
  "\<not> intersects (searchBbox 0 upright_lat 30) (item_of road_upright)"
  "intersects (searchBbox 0 upright_lat 30) (item_of road_east)"
  "well_formed road_upright" "well_formed road_east"
  unfolding searchBbox_upright
  by (simp_all add: intersects_def item_of_def upright_fields upright_values
      well_formed_def road_upright_def road_east_def two_point_road_def)

lemma findNearest_upright:
  "findNearest linear_search (addRoads [road_upright, road_east] new_RoadIndex) 0 upright_lat 30
     = Some road_east"
proof -
  have "candidates_ts linear_search (addRoads [road_upright, road_east] new_RoadIndex) 0 upright_lat 30
      = [item_of road_east]"
    by (simp add: candidates_ts_def linear_search_def addRoads_def addRoad_def new_RoadIndex_def
        rbush_insert_def upright_boxes)
  then show ?thesis
    by (simp add: findNearest_def addRoads_def addRoad_def new_RoadIndex_def item_of_def
        upright_fields nearest_loop_def consider_candidate_def distance_east)
qed

section \<open>Claims about findNearest\<close>

lemma linear_search_spec: "rbush_search_spec linear_search"
  by (auto simp: rbush_search_spec_def linear_search_def)



lemmas eval_js = findNearest_js_def candidates_js_def addRoads_js_def addRoad_js_def
  new_RoadIndex_js_def nearest_loop_def consider_candidate_def cellRoads_def getGridKey_def
  ring_offsets cell_examples example_fields distanceToRoad_js_eq
  distance_q1 distance_q0 distance_q2 Let_def





text \<open>
  The R-tree-based lookup against the linear scan, at the rim of the radius:
  \<open>road_upright\<close> is two doubles below 30 m from the query point by
  \<open>distanceToRoad\<close>, \<open>road_east\<close> one double below. The box of
  \<open>road_upright\<close> misses the search box, so the lookup returns \<open>road_east\<close>, which a
  scan over both roads would not.
\<close>

lemma findNearest_skips_nearer_outside_box:
  "rbush_search_spec linear_search \<and>
   distinct (map road_id [road_upright, road_east]) \<and>
   well_formed road_upright \<and> well_formed road_east \<and>
   findNearest linear_search (addRoads [road_upright, road_east] new_RoadIndex) 0 upright_lat 30
     = Some road_east \<and>
   distanceToRoad 0 upright_lat road_east = Num (30 - 1 / 2 ^ 48) \<and>
   distanceToRoad 0 upright_lat road_upright = Num (30 - 2 / 2 ^ 48) \<and>
   xless (distanceToRoad 0 upright_lat road_upright) (30 - 1 / 2 ^ 48) \<and>
   \<not> intersects (searchBbox 0 upright_lat 30) (item_of road_upright)"
  using linear_search_spec findNearest_upright distance_east distance_upright upright_boxes
  by (simp add: upright_fields)




section \<open>Ties\<close>

lemma fold_consider_first:
  assumes A: "distance A = Num d" "d < d0"
    and pre: "\<forall>T. Some T \<in> set pre \<longrightarrow> distance T \<noteq> Num d"
    and least: "\<forall>T. Some T \<in> set pre \<union> set post \<longrightarrow> \<not> xless (distance T) d"
  shows "fold (consider_candidate distance) (pre @ Some A # post) (r0, d0) = (Some A, d)"
proof -
  obtain r1 d1 where f: "fold (consider_candidate distance) pre (r0, d0) = (r1, d1)"
    by (cases "fold (consider_candidate distance) pre (r0, d0)")
  have "d < d1"
  proof -
    from fold_consider_result [OF f] consider "d1 = d0"
      | S where "Some S \<in> set pre" "distance S = Num d1" by blast
    then show ?thesis
    proof cases
      case 1 with A show ?thesis by simp
    next
      case 2
      with pre least have "d1 \<noteq> d" "\<not> d1 < d" by auto
      then show ?thesis by simp
    qed
  qed
  then have "consider_candidate distance (Some A) (r1, d1) = (Some A, d)"
    using A by (simp add: consider_candidate_def)
  moreover have "fold (consider_candidate distance) post (Some A, d) = (Some A, d)"
    using least by (intro fold_consider_keep) auto
  ultimately show ?thesis using f by simp
qed

lemma nearest_loop_first:
  assumes "distance A = Num d" "d < R"
    and "\<forall>T. Some T \<in> set pre \<longrightarrow> distance T \<noteq> Num d"
    and "\<forall>T. Some T \<in> set pre \<union> set post \<longrightarrow> \<not> xless (distance T) d"
  shows "nearest_loop distance (pre @ Some A # post) R = Some A"
  using fold_consider_first [OF assms] by (simp add: nearest_loop_def)

lemma candidates_js_addRoads:
  assumes "distinct (map road_id segs)"
  shows "candidates_js (addRoads_js segs new_RoadIndex_js) lon lat = map Some (grid_order segs lon lat)"
proof -
  let ?idx = "addRoads_js segs new_RoadIndex_js"
  have cell: "map (map_of (roads ?idx)) (cellRoads (spatialGrid ?idx) k)
      = map Some (filter (\<lambda>s. cell_of s = k) segs)" for k
  proof -
    have "cellRoads (spatialGrid ?idx) k = map road_id (filter (\<lambda>s. cell_of s = k) segs)"
    proof -
      have "cellRoads (spatialGrid new_RoadIndex_js) k = []"
        by (simp add: new_RoadIndex_js_def cellRoads_def)
      then show ?thesis by (simp add: addRoads_js_def cellRoads_fold_addRoad_js)
    qed
    moreover have "map (\<lambda>s. map_of (roads ?idx) (road_id s)) (filter (\<lambda>s. cell_of s = k) segs)
        = map Some (filter (\<lambda>s. cell_of s = k) segs)"
      using roads_addRoads_js_distinct [OF assms] by (intro map_cong) auto
    ultimately show ?thesis by (simp add: comp_def)
  qed
  show ?thesis
    unfolding candidates_js_def grid_order_def Let_def
    by (simp add: map_concat comp_def cell [unfolded comp_def])
qed

lemma fold_consider_not_later:
  assumes "distance B = Num b" "d0 \<le> b" "r0 \<noteq> Some B"
  shows "fst (fold (consider_candidate distance) cs (r0, d0)) \<noteq> Some B"
proof -
  obtain r d where f: "fold (consider_candidate distance) cs (r0, d0) = (r, d)"
    by (cases "fold (consider_candidate distance) cs (r0, d0)")
  from fold_consider_result [OF f] consider "r = r0"
    | S where "r = Some S" "distance S = Num d" "d < d0" by blast
  then have "r \<noteq> Some B"
  proof cases
    case 1 with assms(3) show ?thesis by simp
  next
    case 2 with assms(1,2) show ?thesis by auto
  qed
  with f show ?thesis by simp
qed

lemma nearest_loop_not_later:
  assumes "distance A = Num a" "distance B = Num b" "a \<le> b" "A \<noteq> B" "Some B \<notin> set pre"
  shows "nearest_loop distance (pre @ Some A # post) R \<noteq> Some B"
proof -
  obtain r1 d1 where f1: "fold (consider_candidate distance) pre (None, R) = (r1, d1)"
    by (cases "fold (consider_candidate distance) pre (None, R)")
  from fold_consider_result [OF f1] assms(5) have r1: "r1 \<noteq> Some B" by auto
  obtain r2 d2 where f2: "consider_candidate distance (Some A) (r1, d1) = (r2, d2)"
    by (cases "consider_candidate distance (Some A) (r1, d1)")
  then have "d2 \<le> a" "r2 \<noteq> Some B"
    using assms(1,4) r1 by (auto simp: consider_candidate_def split: if_splits)
  with assms(3) have "d2 \<le> b" by simp
  from fold_consider_not_later [where distance = distance and cs = post, OF assms(2) this \<open>r2 \<noteq> Some B\<close>]
  show ?thesis using f1 f2 by (simp add: nearest_loop_def)
qed

lemma concat_filter_distinct:
  "distinct ks \<Longrightarrow> distinct xs \<Longrightarrow> distinct (concat (map (\<lambda>k. filter (\<lambda>s. h s = k) xs) ks))"
  by (induction ks) auto

lemma concat_nested:
  "concat (map (\<lambda>x. concat (map (\<lambda>y. F (x, y)) ys)) xs) = concat (map F (List.product xs ys))"
  by (induction xs) (simp_all add: map_concat comp_def)

lemma grid_order_cells:
  "grid_order segs lon lat =
     concat (map (\<lambda>k. filter (\<lambda>s. cell_of s = k) segs)
       (map (\<lambda>(dx, dy). (\<lfloor>fdiv lon gridSize\<rfloor> + dx, \<lfloor>fdiv lat gridSize\<rfloor> + dy))
          (List.product [- searchRadius .. searchRadius] [- searchRadius .. searchRadius])))"
proof -
  have "grid_order segs lon lat =
      concat (map (\<lambda>(dx, dy). filter (\<lambda>s. cell_of s = (\<lfloor>fdiv lon gridSize\<rfloor> + dx, \<lfloor>fdiv lat gridSize\<rfloor> + dy)) segs)
        (List.product [- searchRadius .. searchRadius] [- searchRadius .. searchRadius]))"
    unfolding grid_order_def
    using concat_nested [of "\<lambda>(dx, dy). filter (\<lambda>s. cell_of s = (\<lfloor>fdiv lon gridSize\<rfloor> + dx, \<lfloor>fdiv lat gridSize\<rfloor> + dy)) segs"
        "[- searchRadius .. searchRadius]" "[- searchRadius .. searchRadius]"]
    by simp
  then show ?thesis by (simp add: comp_def case_prod_unfold)
qed

lemma distinct_grid_order:
  assumes "distinct segs"
  shows "distinct (grid_order segs lon lat)"
proof -
  have "distinct (map (\<lambda>(dx, dy). (\<lfloor>fdiv lon gridSize\<rfloor> + dx, \<lfloor>fdiv lat gridSize\<rfloor> + dy))
          (List.product [- searchRadius .. searchRadius] [- searchRadius .. searchRadius]))"
    by (auto simp: distinct_map distinct_product inj_on_def)
  from concat_filter_distinct [OF this assms] show ?thesis
    unfolding grid_order_cells .
qed

lemma grid_order_same_cell:
  assumes "segs = s1 @ A # s2 @ B # s3" "cell_of A = cell_of B" "in_ring lon lat A"
  shows "\<exists>pre mid post. grid_order segs lon lat = pre @ A # mid @ B # post"
proof -
  let ?ks = "map (\<lambda>(dx, dy). (\<lfloor>fdiv lon gridSize\<rfloor> + dx, \<lfloor>fdiv lat gridSize\<rfloor> + dy))
          (List.product [- searchRadius .. searchRadius] [- searchRadius .. searchRadius])"
  define dx where "dx = fst (cell_of A) - \<lfloor>fdiv lon gridSize\<rfloor>"
  define dy where "dy = snd (cell_of A) - \<lfloor>fdiv lat gridSize\<rfloor>"
  have "(dx, dy) \<in> set (List.product [- searchRadius .. searchRadius] [- searchRadius .. searchRadius])"
    using assms(3) by (auto simp: in_ring_def dx_def dy_def)
  moreover have "(\<lfloor>fdiv lon gridSize\<rfloor> + dx, \<lfloor>fdiv lat gridSize\<rfloor> + dy) = cell_of A"
    by (simp add: dx_def dy_def)
  ultimately have "cell_of A \<in> set ?ks" by force
  then obtain k1 k2 where ks: "?ks = k1 @ cell_of A # k2" by (meson split_list)
  have "filter (\<lambda>s. cell_of s = cell_of A) segs =
      filter (\<lambda>s. cell_of s = cell_of A) s1 @ A # filter (\<lambda>s. cell_of s = cell_of A) s2 @ B #
      filter (\<lambda>s. cell_of s = cell_of A) s3"
    using assms(1,2) by simp
  then have "grid_order segs lon lat =
      (concat (map (\<lambda>k. filter (\<lambda>s. cell_of s = k) segs) k1) @ filter (\<lambda>s. cell_of s = cell_of A) s1) @
      A # filter (\<lambda>s. cell_of s = cell_of A) s2 @ B #
      (filter (\<lambda>s. cell_of s = cell_of A) s3 @ concat (map (\<lambda>k. filter (\<lambda>s. cell_of s = k) segs) k2))"
    unfolding grid_order_cells ks by (simp del: filter_append)
  then show ?thesis by blast
qed

lemma set_grid_order:
  "set (grid_order segs lon lat) = {s \<in> set segs. in_ring lon lat s}"
proof -
  have "(\<exists>dx\<in>{- searchRadius .. searchRadius}. \<exists>dy\<in>{- searchRadius .. searchRadius}.
          cell_of s = (\<lfloor>fdiv lon gridSize\<rfloor> + dx, \<lfloor>fdiv lat gridSize\<rfloor> + dy)) \<longleftrightarrow> in_ring lon lat s" for s
  proof
    assume "\<exists>dx\<in>{- searchRadius .. searchRadius}. \<exists>dy\<in>{- searchRadius .. searchRadius}.
          cell_of s = (\<lfloor>fdiv lon gridSize\<rfloor> + dx, \<lfloor>fdiv lat gridSize\<rfloor> + dy)"
    then show "in_ring lon lat s" by (auto simp: in_ring_def)
  next
    assume r: "in_ring lon lat s"
    define dx where "dx = fst (cell_of s) - \<lfloor>fdiv lon gridSize\<rfloor>"
    define dy where "dy = snd (cell_of s) - \<lfloor>fdiv lat gridSize\<rfloor>"
    have "dx \<in> {- searchRadius .. searchRadius}" "dy \<in> {- searchRadius .. searchRadius}"
      "cell_of s = (\<lfloor>fdiv lon gridSize\<rfloor> + dx, \<lfloor>fdiv lat gridSize\<rfloor> + dy)"
      using r by (auto simp: in_ring_def dx_def dy_def)
    then show "\<exists>dx\<in>{- searchRadius .. searchRadius}. \<exists>dy\<in>{- searchRadius .. searchRadius}.
          cell_of s = (\<lfloor>fdiv lon gridSize\<rfloor> + dx, \<lfloor>fdiv lat gridSize\<rfloor> + dy)" by blast
  qed
  then show ?thesis by (auto simp: grid_order_def)
qed

lemma findNearest_js_same_cell:
  assumes "distinct (map road_id segs)" "segs = s1 @ A # s2 @ B # s3" "cell_of A = cell_of B"
    and "distanceToRoad_js lon lat A = Num a" "distanceToRoad_js lon lat B = Num b" "a \<le> b"
  shows "findNearest_js (addRoads_js segs new_RoadIndex_js) lon lat R \<noteq> Some B"
proof
  assume res: "findNearest_js (addRoads_js segs new_RoadIndex_js) lon lat R = Some B"
  have cs: "candidates_js (addRoads_js segs new_RoadIndex_js) lon lat = map Some (grid_order segs lon lat)"
    by (rule candidates_js_addRoads [OF assms(1)])
  from res have loop: "nearest_loop (distanceToRoad_js lon lat) (map Some (grid_order segs lon lat)) R = Some B"
    by (simp add: findNearest_js_def cs Let_def split: if_splits)
  from nearest_loop_Some [OF loop] have "B \<in> set (grid_order segs lon lat)" by auto
  then have "in_ring lon lat B" by (simp add: set_grid_order)
  then have "in_ring lon lat A" using assms(3) by (simp add: in_ring_def)
  from grid_order_same_cell [OF assms(2,3) this] obtain pre mid post where
    g: "grid_order segs lon lat = pre @ A # mid @ B # post" by blast
  from assms(1) have "distinct segs" by (simp add: distinct_map)
  from distinct_grid_order [OF this, of lon lat] g have "B \<notin> set pre" "A \<noteq> B" by auto
  then have "Some B \<notin> set (map Some pre)" by auto
  from nearest_loop_not_later [OF assms(4,5,6) \<open>A \<noteq> B\<close> this, of "map Some (mid @ B # post)" R] loop
  show False by (simp add: g)
qed

text \<open>
  Claim C3, as the code has it. Neither implementation looks at insertion order; the
  loop keeps the first candidate that reaches the minimal distance, because a later one
  replaces it only when strictly nearer. So of the segments tied at the minimal distance
  inside the radius, the one met first is returned. The grid-based lookup meets the
  segments in \<open>grid_order\<close>: cell by cell around the query point, and in insertion order
  only within one cell. The R-tree-based lookup meets them in the order in which the
  tree search lists them. What is left of the rule of insertion order: of two segments
  filed in the same grid cell, the one inserted later is never returned when the earlier
  one is at most as far. The cell of a segment is the one the code computes, from the
  rounded quotient of its midpoint by \<open>gridSize\<close>.
\<close>

theorem tie_goes_to_first_candidate:
  "(distinct (map road_id segs) \<longrightarrow>
    grid_order segs lon lat = pre @ A # post \<longrightarrow>
    distanceToRoad_js lon lat A = Num d \<longrightarrow> d < R \<longrightarrow>
    (\<forall>T\<in>set pre. distanceToRoad_js lon lat T \<noteq> Num d) \<longrightarrow>
    (\<forall>T\<in>set pre \<union> set post. \<not> xless (distanceToRoad_js lon lat T) d) \<longrightarrow>
    findNearest_js (addRoads_js segs new_RoadIndex_js) lon lat R = Some A) \<and>
   (map (\<lambda>candidate. map_of (roads idx) (roadId candidate)) (candidates_ts search idx lon lat R)
      = cpre @ Some A # cpost \<longrightarrow>
    distanceToRoad lon lat A = Num d \<longrightarrow> d < R \<longrightarrow>
    (\<forall>T. Some T \<in> set cpre \<longrightarrow> distanceToRoad lon lat T \<noteq> Num d) \<longrightarrow>
    (\<forall>T. Some T \<in> set cpre \<union> set cpost \<longrightarrow> \<not> xless (distanceToRoad lon lat T) d) \<longrightarrow>
    findNearest search idx lon lat R = Some A) \<and>
   (distinct (map road_id segs) \<longrightarrow>
    segs = front @ E # mid @ L # rear \<longrightarrow> cell_of E = cell_of L \<longrightarrow>
    distanceToRoad_js lon lat E = Num a \<longrightarrow> distanceToRoad_js lon lat L = Num b \<longrightarrow> a \<le> b \<longrightarrow>
    findNearest_js (addRoads_js segs new_RoadIndex_js) lon lat R \<noteq> Some L)"
proof (intro conjI impI)
  assume dist: "distinct (map road_id segs)"
    and order: "grid_order segs lon lat = pre @ A # post"
    and A: "distanceToRoad_js lon lat A = Num d" "d < R"
    and first: "\<forall>T\<in>set pre. distanceToRoad_js lon lat T \<noteq> Num d"
    and least: "\<forall>T\<in>set pre \<union> set post. \<not> xless (distanceToRoad_js lon lat T) d"
  have cs: "candidates_js (addRoads_js segs new_RoadIndex_js) lon lat
      = map Some pre @ Some A # map Some post"
    by (simp add: candidates_js_addRoads [OF dist] order)
  have "nearest_loop (distanceToRoad_js lon lat) (map Some pre @ Some A # map Some post) R = Some A"
    using first least
    by (intro nearest_loop_first [where distance = "distanceToRoad_js lon lat", OF A]) auto
  then show "findNearest_js (addRoads_js segs new_RoadIndex_js) lon lat R = Some A"
    by (simp add: findNearest_js_def cs)
next
  assume cs: "map (\<lambda>candidate. map_of (roads idx) (roadId candidate)) (candidates_ts search idx lon lat R)
      = cpre @ Some A # cpost"
    and A: "distanceToRoad lon lat A = Num d" "d < R"
    and first: "\<forall>T. Some T \<in> set cpre \<longrightarrow> distanceToRoad lon lat T \<noteq> Num d"
    and least: "\<forall>T. Some T \<in> set cpre \<union> set cpost \<longrightarrow> \<not> xless (distanceToRoad lon lat T) d"
  from cs have ne: "candidates_ts search idx lon lat R \<noteq> []" by auto
  have "nearest_loop (distanceToRoad lon lat) (cpre @ Some A # cpost) R = Some A"
    by (rule nearest_loop_first [where distance = "distanceToRoad lon lat", OF A first least])
  with ne show "findNearest search idx lon lat R = Some A"
    by (simp add: findNearest_def Let_def cs)
next
  assume "distinct (map road_id segs)" "segs = front @ E # mid @ L # rear" "cell_of E = cell_of L"
    "distanceToRoad_js lon lat E = Num a" "distanceToRoad_js lon lat L = Num b" "a \<le> b"
  then show "findNearest_js (addRoads_js segs new_RoadIndex_js) lon lat R \<noteq> Some L"
    by (rule findNearest_js_same_cell)
qed

lemma cell_of_examples:
  "cell_of road_long = (31, 0)" "cell_of road_short = (0, 0)"
  "cell_of road_north = (0, 0)" "cell_of road_south = (0, - 1)"
  by (simp_all add: cell_of_def getGridKey_def example_fields cell_examples)

lemma grid_order_north_south:
  "grid_order [road_north, road_south] (1 / 2048) 0 = [road_south, road_north]"
  by (simp add: grid_order_def ring_offsets cell_of_examples cell_examples)

lemma search_order_north_south:
  "map (\<lambda>candidate. map_of (roads (addRoads [road_north, road_south] new_RoadIndex)) (roadId candidate))
     (candidates_ts linear_search (addRoads [road_north, road_south] new_RoadIndex) (1 / 2048) 0 25)
   = [Some road_north, Some road_south]"
  by (simp add: candidates_ts_def linear_search_def addRoads_def addRoad_def
      new_RoadIndex_def rbush_insert_def item_of_def intersects_def example_fields searchBbox_q0)

theorem tie_goes_to_first_candidate_witness:
  "distinct (map road_id [road_north, road_south]) \<and>
   grid_order [road_north, road_south] (1 / 2048) 0 = [] @ road_south # [road_north] \<and>
   distanceToRoad_js (1 / 2048) 0 road_south = Num (41745 / 2048) \<and>
   distanceToRoad_js (1 / 2048) 0 road_north = Num (41745 / 2048) \<and>
   findNearest_js (addRoads_js [road_north, road_south] new_RoadIndex_js) (1 / 2048) 0 25 = Some road_south \<and>
   map (\<lambda>candidate. map_of (roads (addRoads [road_north, road_south] new_RoadIndex)) (roadId candidate))
     (candidates_ts linear_search (addRoads [road_north, road_south] new_RoadIndex) (1 / 2048) 0 25)
     = [] @ Some road_north # [Some road_south] \<and>
   findNearest linear_search (addRoads [road_north, road_south] new_RoadIndex) (1 / 2048) 0 25 = Some road_north \<and>
   distinct (map road_id [road_short, road_north]) \<and>
   cell_of road_short = cell_of road_north \<and>
   distanceToRoad_js (1 / 2048) (9 / 32768) road_short = Num (41745 / 4096) \<and>
   distanceToRoad_js (1 / 2048) (9 / 32768) road_north = Num (41745 / 4096) \<and>
   findNearest_js (addRoads_js [road_short, road_north] new_RoadIndex_js) (1 / 2048) (9 / 32768) 25
     \<noteq> Some road_north"
proof -
  have cell: "cell_of road_short = cell_of road_north"
    by (simp add: cell_of_examples)
  have dist: "distanceToRoad_js (1 / 2048) (9 / 32768) road_short = Num (41745 / 4096)"
    "distanceToRoad_js (1 / 2048) (9 / 32768) road_north = Num (41745 / 4096)"
    by (simp_all add: distanceToRoad_js_eq distance_q2)
  have ids: "distinct (map road_id [road_short, road_north])"
    by (simp add: example_fields)
  have split: "[road_short, road_north] = [] @ road_short # [] @ road_north # []" by simp
  have le: "(41745 / 4096 :: real) \<le> 41745 / 4096" by simp
  have same: "findNearest_js (addRoads_js [road_short, road_north] new_RoadIndex_js) (1 / 2048) (9 / 32768) 25
      \<noteq> Some road_north"
    by (rule tie_goes_to_first_candidate [where segs = "[road_short, road_north]" and lon = "1 / 2048"
        and lat = "9 / 32768" and front = "[]" and E = road_short and mid = "[]" and L = road_north
        and rear = "[]" and a = "41745 / 4096" and b = "41745 / 4096" and R = 25,
        THEN conjunct2, THEN conjunct2, rule_format, OF ids split cell dist le])
  show ?thesis
    using tie_goes_to_first_candidate [where segs = "[road_north, road_south]" and lon = "1 / 2048"
        and lat = 0 and pre = "[]" and A = road_south and post = "[road_north]" and d = "41745 / 2048"
        and R = 25 and idx = "addRoads [road_north, road_south] new_RoadIndex" and search = linear_search
        and cpre = "[Some road_north]" and cpost = "[]"]
      tie_goes_to_first_candidate [where segs = "[]" and lon = "1 / 2048"
        and lat = 0 and pre = "[]" and A = road_north and post = "[]" and d = "41745 / 2048"
        and R = 25 and idx = "addRoads [road_north, road_south] new_RoadIndex" and search = linear_search
        and cpre = "[]" and cpost = "[Some road_south]"]
      grid_order_north_south search_order_north_south distance_q0 same cell dist ids
    by (simp add: distanceToRoad_js_eq example_fields)
qed

text \<open>
  Two parallel segments about 41 m apart, the query point halfway at 20.38 m from each,
  radius 25 m: the grid-based lookup returns \<open>road_south\<close>, inserted second, because
  its cell is scanned before the cell of \<open>road_north\<close>.
\<close>

theorem findNearest_js_tie_returns_later_inserted:
  "findNearest_js (addRoads_js [road_north, road_south] new_RoadIndex_js) (1 / 2048) 0 25 = Some road_south \<and>
   distanceToRoad_js (1 / 2048) 0 road_north = Num (41745 / 2048) \<and>
   distanceToRoad_js (1 / 2048) 0 road_south = Num (41745 / 2048) \<and>
   road_north \<noteq> road_south"
proof -
  have "findNearest_js (addRoads_js [road_north, road_south] new_RoadIndex_js) (1 / 2048) 0 25
      = Some road_south"
    by (simp add: eval_js)
  then show ?thesis
    using distance_q0 example_roads_differ(2) by (simp add: distanceToRoad_js_eq)
qed

section \<open>Segments built from ways\<close>

lemma length_flatten: "length (flatten g) = 2 * length g"
  by (induction g) (simp_all add: flatten_def)

lemma flatten_nth:
  "i < length g \<Longrightarrow> flatten g ! (2 * i) = fst (g ! i) \<and> flatten g ! (2 * i + 1) = snd (g ! i)"
proof (induction g arbitrary: i)
  case Nil then show ?case by simp
next
  case (Cons p g)
  show ?case
  proof (cases i)
    case 0 then show ?thesis by (simp add: flatten_def)
  next
    case (Suc j)
    with Cons.prems have "j < length g" by simp
    from Cons.IH [OF this] Suc show ?thesis by (simp add: flatten_def)
  qed
qed

lemma fromOSMWay_with_Inr:
  assumes "geometry way = Some g" "2 \<le> length g"
  shows "\<exists>seg. fromOSMWay_with mk way = Inr seg \<and> midpoint seg = g ! (length g div 2) \<and>
           positions seg = flatten g \<and> road_id seg = ''osm_way_'' @ el_id way \<and>
           metadata seg = Some (mk (case tags way of None \<Rightarrow> Map.empty | Some t \<Rightarrow> t))"
proof -
  let ?n = "length g"
  have idx: "(length (flatten g) div 4) * 2 = 2 * (?n div 2)"
    by (simp add: length_flatten)
  have "?n div 2 < ?n" using assms(2) by simp
  from flatten_nth [OF this]
  have "(flatten g ! (2 * (?n div 2)), flatten g ! (2 * (?n div 2) + 1)) = g ! (?n div 2)"
    by simp
  then show ?thesis
    using assms by (simp add: fromOSMWay_with_def Let_def idx)
qed

lemma fromOSMWay_with_Inl:
  assumes "point_count way < 2"
  shows "fromOSMWay_with mk way = Inl InvalidGeometry"
  using assms by (simp add: fromOSMWay_with_def point_count_def split: option.splits)

text \<open>
  Claim C6. For every way with \<open>n \<ge> 2\<close> geometry points, \<open>fromOSMWay\<close> succeeds in
  both files and the midpoint of the segment is the input point at index
  \<open>n div 2\<close>: the midpoint by vertex count.
\<close>

theorem fromOSMWay_midpoint:
  assumes "geometry way = Some g" "2 \<le> length g"
  shows "(\<exists>seg. fromOSMWay way = Inr seg \<and> midpoint seg = g ! (length g div 2)) \<and>
         (\<exists>seg. fromOSMWay_js way = Inr seg \<and> midpoint seg = g ! (length g div 2))"
  using fromOSMWay_with_Inr [OF assms, of osm_metadata] fromOSMWay_with_Inr [OF assms, of osm_metadata_js]
  unfolding fromOSMWay_def fromOSMWay_js_def by blast

theorem fromOSMWay_midpoint_witness:
  "geometry (residential_way ''5'' (Some [(0, 0), (1, 2), (3, 4), (5, 6), (7, 8)]))
     = Some [(0, 0), (1, 2), (3, 4), (5, 6), (7, 8)] \<and>
   (2::nat) \<le> length [(0::real, 0::real), (1, 2), (3, 4), (5, 6), (7, 8)] \<and>
   (\<exists>seg. fromOSMWay (residential_way ''5'' (Some [(0, 0), (1, 2), (3, 4), (5, 6), (7, 8)])) = Inr seg \<and>
          midpoint seg = (3, 4)) \<and>
   (\<exists>seg. fromOSMWay_js (residential_way ''5'' (Some [(0, 0), (1, 2), (3, 4), (5, 6), (7, 8)])) = Inr seg \<and>
          midpoint seg = (3, 4))"
  using fromOSMWay_midpoint [of "residential_way ''5'' (Some [(0, 0), (1, 2), (3, 4), (5, 6), (7, 8)])"
      "[(0, 0), (1, 2), (3, 4), (5, 6), (7, 8)]"]
  by (simp add: residential_way_def)

section \<open>Bulk load\<close>

lemma is_highway_way_from_way:
  assumes "is_highway_way element"
  shows "(loadable element \<longrightarrow> (\<exists>road. fromOSMWay_with mk element = Inr road)) \<and>
         (rejected element \<longrightarrow> fromOSMWay_with mk element = Inl InvalidGeometry) \<and>
         (loadable element \<or> rejected element)"
proof -
  from assms obtain g where g: "geometry element = Some g"
    by (auto simp: is_highway_way_def)
  show ?thesis
  proof (cases "2 \<le> length g")
    case True
    from fromOSMWay_with_Inr [OF g True, of mk] show ?thesis
      using assms g True by (auto simp: loadable_def rejected_def point_count_def)
  next
    case False
    then have "point_count element < 2" using g by (simp add: point_count_def)
    from fromOSMWay_with_Inl [OF this, of mk] this show ?thesis
      using assms by (auto simp: loadable_def rejected_def)
  qed
qed

lemma load_step_cases:
  "load_step (fromOSMWay_with mk) add element (idx, n, w) =
     (if loadable element
      then (fold add (loaded_roads (fromOSMWay_with mk) [element]) idx, n + 1, w)
      else if rejected element then (idx, n, w @ [el_id element])
      else (idx, n, w))"
proof (cases "is_highway_way element")
  case False
  then show ?thesis by (simp add: load_step_def loadable_def rejected_def)
next
  case True
  note h = is_highway_way_from_way [OF True, of mk]
  show ?thesis
  proof (cases "loadable element")
    case True
    with h obtain road where "fromOSMWay_with mk element = Inr road" by blast
    with True \<open>is_highway_way element\<close> show ?thesis
      by (simp add: load_step_def loaded_roads_def)
  next
    case False
    with h have "rejected element" "fromOSMWay_with mk element = Inl InvalidGeometry" by blast+
    with False \<open>is_highway_way element\<close> show ?thesis
      by (simp add: load_step_def)
  qed
qed

lemma loaded_roads_Cons:
  "loaded_roads f (e # els) = loaded_roads f [e] @ loaded_roads f els"
  by (simp add: loaded_roads_def)

lemma not_loadable_rejected: "loadable e \<Longrightarrow> \<not> rejected e"
  by (auto simp: loadable_def rejected_def)

lemma fold_load_step:
  "fold (load_step (fromOSMWay_with mk) add) els (idx, n, w) =
     (fold add (loaded_roads (fromOSMWay_with mk) els) idx,
      n + length (filter loadable els),
      w @ map el_id (filter rejected els))"
proof (induction els arbitrary: idx n w)
  case Nil
  then show ?case by (simp add: loaded_roads_def)
next
  case (Cons e els)
  show ?case
  proof (cases "loadable e")
    case True
    then show ?thesis
      using not_loadable_rejected [OF True]
      by (simp add: load_step_cases Cons.IH loaded_roads_Cons [of _ e els])
  next
    case False
    then have "loaded_roads (fromOSMWay_with mk) [e] = []" by (simp add: loaded_roads_def)
    with False show ?thesis
      by (simp add: load_step_cases Cons.IH loaded_roads_Cons [of _ e els])
  qed
qed

lemma loadFromOSM_js_result:
  "loadFromOSM_js (Some els) idx =
     Inr (addRoads_js (loaded_roads fromOSMWay_js els) idx,
          length (filter loadable els), map el_id (filter rejected els))"
  by (simp add: loadFromOSM_js_def fromOSMWay_js_def fold_load_step addRoads_js_def)

lemma loadFromOSM_result:
  "loadFromOSM (Some els) idx =
     Inr (addRoads (loaded_roads fromOSMWay els) idx, map el_id (filter rejected els))"
  by (simp add: loadFromOSM_def fromOSMWay_def fold_load_step addRoads_def)

lemma loaded_roads_ids:
  "map road_id (loaded_roads (fromOSMWay_with mk) els) = map (\<lambda>e. ''osm_way_'' @ el_id e) (filter loadable els)"
proof (induction els)
  case Nil then show ?case by (simp add: loaded_roads_def)
next
  case (Cons e els)
  show ?case
  proof (cases "loadable e")
    case True
    then obtain g where g: "geometry e = Some g" "2 \<le> length g"
      by (auto simp: loadable_def point_count_def split: option.splits)
    from fromOSMWay_with_Inr [OF g, of mk] obtain seg where
      "fromOSMWay_with mk e = Inr seg" "road_id seg = ''osm_way_'' @ el_id e" by blast
    with True have "map road_id (loaded_roads (fromOSMWay_with mk) [e]) = [''osm_way_'' @ el_id e]"
      by (simp add: loaded_roads_def)
    with True Cons.IH show ?thesis
      by (simp add: loaded_roads_Cons [of _ e els])
  next
    case False
    then have "loaded_roads (fromOSMWay_with mk) [e] = []" by (simp add: loaded_roads_def)
    with False Cons.IH show ?thesis
      by (simp add: loaded_roads_Cons [of _ e els])
  qed
qed

lemmas way_defs = good_way_def single_point_way_def no_geometry_way_def residential_way_def
  untagged_single_point_way_def tagged_way_def

lemmas guard_defs = loadable_def rejected_def is_highway_way_def truthy_tag_def point_count_def

lemma loadable_examples [simp]:
  "loadable (good_way i)" "\<not> loadable (single_point_way i)" "\<not> loadable (no_geometry_way i)"
  "\<not> loadable (untagged_single_point_way i)"
  by (simp_all add: way_defs guard_defs)

lemma rejected_examples [simp]:
  "\<not> rejected (good_way i)" "rejected (single_point_way i)" "\<not> rejected (no_geometry_way i)"
  "\<not> rejected (untagged_single_point_way i)"
  by (simp_all add: way_defs guard_defs)

lemma el_id_examples [simp]:
  "el_id (good_way i) = i" "el_id (single_point_way i) = i"
  by (simp_all add: way_defs)

text \<open>
  Claim C4, as the code has it. Bulk load never fails on a malformed way. It loads, in
  order, exactly the elements of type way that carry a highway tag and at least two
  geometry points, one segment each. A way with a highway tag and a geometry array of
  fewer than two points raises the invalid-geometry error, which is caught, and leaves
  one warning naming the element; any other element is passed over without trace.
  trafficSystem.js returns the number of segments loaded; roadIndex.ts returns nothing.
  No count of skipped elements exists in either.
\<close>

theorem loadFromOSM_loads_counts_and_warns:
  "loadFromOSM_js (Some els) jdx =
     Inr (addRoads_js (loaded_roads fromOSMWay_js els) jdx,
          length (filter loadable els), map el_id (filter rejected els)) \<and>
   loadFromOSM (Some els) idx =
     Inr (addRoads (loaded_roads fromOSMWay els) idx, map el_id (filter rejected els)) \<and>
   map road_id (loaded_roads fromOSMWay_js els) = map (\<lambda>e. ''osm_way_'' @ el_id e) (filter loadable els) \<and>
   map road_id (loaded_roads fromOSMWay els) = map (\<lambda>e. ''osm_way_'' @ el_id e) (filter loadable els)"
  using loadFromOSM_js_result loadFromOSM_result loaded_roads_ids
  unfolding fromOSMWay_def fromOSMWay_js_def by blast

theorem loadFromOSM_loads_counts_and_warns_witness:
  "loadFromOSM_js (Some batch_of_ten) new_RoadIndex_js =
     Inr (addRoads_js (loaded_roads fromOSMWay_js batch_of_ten) new_RoadIndex_js, 9, [''7'']) \<and>
   loadFromOSM (Some batch_of_ten) new_RoadIndex =
     Inr (addRoads (loaded_roads fromOSMWay batch_of_ten) new_RoadIndex, [''7'']) \<and>
   map road_id (loaded_roads fromOSMWay_js batch_of_ten) =
     [''osm_way_1'', ''osm_way_2'', ''osm_way_3'', ''osm_way_4'', ''osm_way_5'', ''osm_way_6'',
      ''osm_way_8'', ''osm_way_9'', ''osm_way_10'']"
  using loadFromOSM_loads_counts_and_warns [of batch_of_ten new_RoadIndex_js new_RoadIndex]
  by (simp add: batch_of_ten_def)

text \<open>
  Two ways with fewer than two geometry points, one without a geometry array and one
  without tags, are skipped, and the load returns and logs exactly what it does for the
  batch without them: nothing reports that two elements were skipped.
\<close>

theorem loadFromOSM_skips_without_report:
  "skipped_count [good_way ''1'', no_geometry_way ''2'', untagged_single_point_way ''3''] = 2 \<and>
   skipped_count [good_way ''1''] = 0 \<and>
   loadFromOSM_js (Some [good_way ''1'', no_geometry_way ''2'', untagged_single_point_way ''3'']) new_RoadIndex_js
     = loadFromOSM_js (Some [good_way ''1'']) new_RoadIndex_js \<and>
   loadFromOSM (Some [good_way ''1'', no_geometry_way ''2'', untagged_single_point_way ''3'']) new_RoadIndex
     = loadFromOSM (Some [good_way ''1'']) new_RoadIndex"
proof -
  have "skipped_count [good_way ''1'', no_geometry_way ''2'', untagged_single_point_way ''3''] = 2"
    "skipped_count [good_way ''1''] = 0"
    by (simp_all add: skipped_count_def way_defs point_count_def)
  then show ?thesis
    by (simp add: loadFromOSM_js_result loadFromOSM_result loaded_roads_def)
qed

lemmas parse_defs = parseInt_def parse_digits_def is_digit_def digit_val_def is_space_def
  digits_value_def keep_digits_def Let_def

lemma fromOSMWay_with_metadata:
  assumes "geometry way = Some g" "2 \<le> length g"
  shows "\<exists>seg. fromOSMWay_with mk way = Inr seg \<and>
           metadata seg = Some (mk (case tags way of None \<Rightarrow> Map.empty | Some t \<Rightarrow> t))"
  using fromOSMWay_with_Inr [OF assms, of mk] by blast

lemma osm_metadata_missing:
  "truthy_tag tgs ''lanes'' = None \<Longrightarrow> osm_metadata tgs ''lanes'' = None"
  "truthy_tag tgs ''maxspeed'' = None \<Longrightarrow> osm_metadata tgs ''maxspeed'' = None"
  by (simp_all add: osm_metadata_def)

text \<open>
  Claim C5 at a way whose lane count is \<open>two\<close> and whose speed limit is \<open>fast\<close>:
  construction succeeds in both files, but \<open>metadata.lanes\<close> and \<open>metadata.maxspeed\<close>
  hold NaN, not the unset value the claim asks for. Only a missing or empty tag is
  mapped to unset.
\<close>

theorem fromOSMWay_non_numeric_tags_give_NaN:
  "(\<exists>seg md. fromOSMWay (tagged_way ''9'' [(''highway'', ''residential''), (''lanes'', ''two''), (''maxspeed'', ''fast'')])
       = Inr seg \<and> metadata seg = Some md \<and> md ''lanes'' = Some JNaN \<and> md ''maxspeed'' = Some JNaN) \<and>
   (\<exists>seg md. fromOSMWay_js (tagged_way ''9'' [(''highway'', ''residential''), (''lanes'', ''two''), (''maxspeed'', ''fast'')])
       = Inr seg \<and> metadata seg = Some md \<and> md ''lanes'' = Some JNaN \<and> md ''maxspeed'' = Some JNaN)"
proof -
  let ?way = "tagged_way ''9'' [(''highway'', ''residential''), (''lanes'', ''two''), (''maxspeed'', ''fast'')]"
  let ?tgs = "map_of [(''highway'', ''residential''), (''lanes'', ''two''), (''maxspeed'', ''fast'')]"
  have g: "geometry ?way = Some [(0, 0), (1 / 1024, 0)]" "2 \<le> length [(0::real, 0::real), (1 / 1024, 0)]"
    and t: "tags ?way = Some ?tgs"
    by (simp_all add: tagged_way_def)
  have l: "osm_metadata ?tgs ''lanes'' = Some JNaN"
    by (simp add: osm_metadata_def truthy_tag_def parse_defs)
  have m: "osm_metadata ?tgs ''maxspeed'' = Some JNaN"
    by (simp add: osm_metadata_def truthy_tag_def parse_defs)
  from fromOSMWay_with_metadata [OF g, of osm_metadata] fromOSMWay_with_metadata [OF g, of osm_metadata_js]
  show ?thesis
    unfolding fromOSMWay_def fromOSMWay_js_def t using l m
    by (auto simp: osm_metadata_js_def)
qed

section \<open>Synthetic pavement condition\<close>

lemma basePCI_int: "\<exists>b::int. basePCI road = of_int b \<and> 65 \<le> b \<and> b \<le> 80"
proof -
  have "basePCI road = of_int 80 \<or> basePCI road = of_int 65 \<or> basePCI road = of_int 75"
    by (simp add: basePCI_def)
  then show ?thesis by force
qed

lemma syn_pci_bounds:
  assumes "0 \<le> random env k" "random env k < 1"
  shows "40 \<le> syn_pci (generateSyntheticPCI env road k) \<and>
         syn_pci (generateSyntheticPCI env road k) \<le> 95 \<and>
         \<bar>of_int (syn_pci (generateSyntheticPCI env road k)) - basePCI road\<bar> \<le> 10"
proof -
  obtain b :: int where b: "basePCI road = of_int b" "65 \<le> b" "b \<le> 80"
    using basePCI_int by blast
  define v where "v = (random env k - 1 / 2) * 20"
  have v: "- 10 \<le> v" "v < 10" using assms by (simp_all add: v_def)
  have fin: "max 40 (min 95 (basePCI road + v)) = of_int b + v"
    using b v by (simp add: max_def min_def)
  have p: "syn_pci (generateSyntheticPCI env road k) = \<lfloor>of_int b + v + 1 / 2\<rfloor>"
    using fin by (simp add: generateSyntheticPCI_def math_round_def Let_def v_def)
  have lo: "b - 10 \<le> \<lfloor>of_int b + v + 1 / 2\<rfloor>"
    using v by (simp add: le_floor_iff)
  have hi: "\<lfloor>of_int b + v + 1 / 2\<rfloor> \<le> b + 10"
    using v by (simp add: floor_le_iff)
  define q where "q = \<lfloor>of_int b + v + 1 / 2\<rfloor>"
  from lo hi b have q: "40 \<le> q" "q \<le> 95" "\<bar>q - b\<bar> \<le> 10"
    unfolding q_def [symmetric] by linarith+
  from q(3) have "real_of_int \<bar>q - b\<bar> \<le> real_of_int 10"
    by (simp only: of_int_le_iff)
  then have "\<bar>real_of_int q - real_of_int b\<bar> \<le> 10" by simp
  with q(1,2) show ?thesis
    unfolding p b(1) q_def [symmetric] by simp
qed

lemma fill_road_metadata:
  "metadata_get (fill_road env road k) ''pci'' = Some (JNum (of_int (syn_pci (generateSyntheticPCI env road k))))"
  "metadata_get (fill_road env road k) ''pciSynthetic'' = Some (JBool True)"
  "metadata_get (fill_road env road k) ''synthetic'' = metadata_get road ''synthetic''"
  by (simp_all add: fill_road_def metadata_get_def metadata_or_empty_def Let_def split: option.splits)

lemma fold_ensure_step:
  "fold (ensure_step env) rds (filled, c, k) = (filled', c', k') \<Longrightarrow>
   \<exists>new. filled' = filled @ new \<and> length new = length rds \<and>
     c' = c + length (filter lacks_pci rds) \<and>
     (\<forall>i<length rds.
        (lacks_pci (rds ! i) \<longrightarrow> (\<exists>j. new ! i = fill_road env (rds ! i) j)) \<and>
        (\<not> lacks_pci (rds ! i) \<longrightarrow> new ! i = rds ! i))"
proof (induction rds arbitrary: filled c k)
  case Nil
  then show ?case by simp
next
  case (Cons r rds)
  define x where "x = (if lacks_pci r then fill_road env r k else r)"
  have x: "ensure_step env r (filled, c, k) = (filled @ [x], c + (if lacks_pci r then 1 else 0), if lacks_pci r then k + 3 else k)"
    and xr: "lacks_pci r \<longrightarrow> x = fill_road env r k" "\<not> lacks_pci r \<longrightarrow> x = r"
    by (simp_all add: ensure_step_def x_def)
  from Cons.prems x have "fold (ensure_step env) rds (filled @ [x], c + (if lacks_pci r then 1 else 0), if lacks_pci r then k + 3 else k) = (filled', c', k')"
    by simp
  from Cons.IH [OF this] obtain new where new: "filled' = (filled @ [x]) @ new" "length new = length rds"
    "c' = c + (if lacks_pci r then 1 else 0) + length (filter lacks_pci rds)"
    "\<forall>i<length rds.
        (lacks_pci (rds ! i) \<longrightarrow> (\<exists>j. new ! i = fill_road env (rds ! i) j)) \<and>
        (\<not> lacks_pci (rds ! i) \<longrightarrow> new ! i = rds ! i)" by blast
  have "\<forall>i<length (r # rds).
        (lacks_pci ((r # rds) ! i) \<longrightarrow> (\<exists>j. (x # new) ! i = fill_road env ((r # rds) ! i) j)) \<and>
        (\<not> lacks_pci ((r # rds) ! i) \<longrightarrow> (x # new) ! i = (r # rds) ! i)"
  proof (intro allI impI)
    fix i assume "i < length (r # rds)"
    then show "(lacks_pci ((r # rds) ! i) \<longrightarrow> (\<exists>j. (x # new) ! i = fill_road env ((r # rds) ! i) j)) \<and>
        (\<not> lacks_pci ((r # rds) ! i) \<longrightarrow> (x # new) ! i = (r # rds) ! i)"
      using xr new(4) by (cases i) auto
  qed
  with new(1-3) show ?case
    by (intro exI [of _ "x # new"]) simp
qed

lemma join_road_unmatched:
  "findNearestPCI pciData (fst (midpoint road)) (snd (midpoint road)) 50 = None \<Longrightarrow>
   lacks_pci (fst (join_road pciData road))"
  by (simp add: join_road_def lacks_pci_def)

lemma ensureAllRoadsHavePCI_nth:
  assumes "ensureAllRoadsHavePCI env rds = (rds', n)"
  shows "length rds' = length rds \<and> n = length (filter lacks_pci rds) \<and>
     (\<forall>i<length rds.
        (lacks_pci (rds ! i) \<longrightarrow> (\<exists>j. rds' ! i = fill_road env (rds ! i) j)) \<and>
        (\<not> lacks_pci (rds ! i) \<longrightarrow> rds' ! i = rds ! i))"
proof -
  obtain filled c k where f: "fold (ensure_step env) rds ([], 0, 0) = (filled, c, k)"
    by (cases "fold (ensure_step env) rds ([], 0, 0)")
  with assms have "rds' = filled" "n = c" by (simp_all add: ensureAllRoadsHavePCI_def)
  with fold_ensure_step [OF f] show ?thesis by auto
qed

text \<open>
  Claim C7, as the code has it. Randomness is any sequence of draws in \<open>[0, 1)\<close>. The
  fill leaves every road that has a PCI value unchanged. A road without one (no
  metadata, or \<open>metadata.pci\<close> null) gets \<open>metadata.pci\<close> set to a whole number that
  lies in \<open>[40, 95]\<close> and within 10 points of the base score of its classification
  (80 for trunk and primary, 65 for residential and service, 75 otherwise), and is
  flagged by \<open>metadata.pciSynthetic = true\<close>; \<open>metadata.synthetic\<close> is not written.
  The returned count is the number of roads filled.
\<close>

theorem ensureAllRoadsHavePCI_fills:
  assumes "\<forall>k. 0 \<le> random env k \<and> random env k < 1"
    and "ensureAllRoadsHavePCI env rds = (rds', n)"
  shows "length rds' = length rds \<and> n = length (filter lacks_pci rds) \<and>
     (\<forall>i<length rds.
        (lacks_pci (rds ! i) \<longrightarrow>
           (\<exists>p. metadata_get (rds' ! i) ''pci'' = Some (JNum (of_int p)) \<and> 40 \<le> p \<and> p \<le> 95 \<and>
                \<bar>of_int p - basePCI (rds ! i)\<bar> \<le> 10) \<and>
           metadata_get (rds' ! i) ''pciSynthetic'' = Some (JBool True) \<and>
           metadata_get (rds' ! i) ''synthetic'' = metadata_get (rds ! i) ''synthetic'') \<and>
        (\<not> lacks_pci (rds ! i) \<longrightarrow> rds' ! i = rds ! i))"
proof -
  note nth = ensureAllRoadsHavePCI_nth [OF assms(2)]
  have "(lacks_pci (rds ! i) \<longrightarrow>
           (\<exists>p. metadata_get (rds' ! i) ''pci'' = Some (JNum (of_int p)) \<and> 40 \<le> p \<and> p \<le> 95 \<and>
                \<bar>of_int p - basePCI (rds ! i)\<bar> \<le> 10) \<and>
           metadata_get (rds' ! i) ''pciSynthetic'' = Some (JBool True) \<and>
           metadata_get (rds' ! i) ''synthetic'' = metadata_get (rds ! i) ''synthetic'') \<and>
        (\<not> lacks_pci (rds ! i) \<longrightarrow> rds' ! i = rds ! i)" if i: "i < length rds" for i
  proof (cases "lacks_pci (rds ! i)")
    case True
    with nth i obtain j where j: "rds' ! i = fill_road env (rds ! i) j" by blast
    from assms(1) have "0 \<le> random env j" "random env j < 1" by auto
    from syn_pci_bounds [OF this, of "rds ! i"] show ?thesis
      using True unfolding j fill_road_metadata by blast
  next
    case False
    with nth i show ?thesis by blast
  qed
  with nth show ?thesis by blast
qed

lemma ensure_example:
  "ensureAllRoadsHavePCI fixed_env [road_unjoined, road_measured]
     = ([fill_road fixed_env road_unjoined 0, road_measured], 1)"
  by (simp add: ensureAllRoadsHavePCI_def ensure_step_def lacks_pci_def road_unjoined_def
      road_measured_def osm_metadata_js_def)

lemma fixed_env_random: "\<forall>k. 0 \<le> random fixed_env k \<and> random fixed_env k < 1"
  by (simp add: fixed_env_def)

lemma kind_road_unjoined: "kind road_unjoined = ''residential''"
  by (simp add: road_unjoined_def road_north_def level_road_def)

lemma lacks_pci_examples: "lacks_pci road_unjoined" "\<not> lacks_pci road_measured"
  by (simp_all add: lacks_pci_def road_unjoined_def road_measured_def osm_metadata_js_def)

theorem ensureAllRoadsHavePCI_fills_witness:
  "(\<forall>k. 0 \<le> random fixed_env k \<and> random fixed_env k < 1) \<and>
   ensureAllRoadsHavePCI fixed_env [road_unjoined, road_measured]
     = ([fill_road fixed_env road_unjoined 0, road_measured], 1) \<and>
   lacks_pci road_unjoined \<and> \<not> lacks_pci road_measured \<and> basePCI road_unjoined = 65 \<and>
   (\<exists>p. metadata_get (fill_road fixed_env road_unjoined 0) ''pci'' = Some (JNum (of_int p)) \<and>
        40 \<le> p \<and> p \<le> 95 \<and> \<bar>of_int p - basePCI road_unjoined\<bar> \<le> 10) \<and>
   metadata_get (fill_road fixed_env road_unjoined 0) ''pciSynthetic'' = Some (JBool True) \<and>
   [fill_road fixed_env road_unjoined 0, road_measured] ! 1 = road_measured"
proof -
  note t = ensureAllRoadsHavePCI_fills [OF fixed_env_random ensure_example]
  let ?P = "\<lambda>i. (lacks_pci ([road_unjoined, road_measured] ! i) \<longrightarrow>
           (\<exists>p. metadata_get ([fill_road fixed_env road_unjoined 0, road_measured] ! i) ''pci'' = Some (JNum (of_int p)) \<and> 40 \<le> p \<and> p \<le> 95 \<and>
                \<bar>of_int p - basePCI ([road_unjoined, road_measured] ! i)\<bar> \<le> 10) \<and>
           metadata_get ([fill_road fixed_env road_unjoined 0, road_measured] ! i) ''pciSynthetic'' = Some (JBool True) \<and>
           metadata_get ([fill_road fixed_env road_unjoined 0, road_measured] ! i) ''synthetic''
             = metadata_get ([road_unjoined, road_measured] ! i) ''synthetic'') \<and>
        (\<not> lacks_pci ([road_unjoined, road_measured] ! i) \<longrightarrow>
           [fill_road fixed_env road_unjoined 0, road_measured] ! i = [road_unjoined, road_measured] ! i)"
  from t have all: "\<forall>i<length [road_unjoined, road_measured]. ?P i" by blast
  have "?P 0" using all by (elim allE [of _ 0]) simp
  moreover have "?P 1" using all by (elim allE [of _ 1]) simp
  moreover have "basePCI road_unjoined = 65"
    by (simp add: basePCI_def kind_road_unjoined)
  ultimately show ?thesis
    using fixed_env_random ensure_example lacks_pci_examples by simp
qed

text \<open>
  A residential road with \<open>pci: null\<close>, every draw 0.5: after the fill
  \<open>metadata.pci\<close> is 65 and \<open>metadata.pciSynthetic\<close> is true, but
  \<open>metadata.synthetic\<close> is undefined, not true.
\<close>

theorem ensureAllRoadsHavePCI_synthetic_flag_unset:
  "lacks_pci road_unjoined \<and> kind road_unjoined = ''residential'' \<and>
   fst (ensureAllRoadsHavePCI fixed_env [road_unjoined]) = [fill_road fixed_env road_unjoined 0] \<and>
   metadata_get (fill_road fixed_env road_unjoined 0) ''pci'' = Some (JNum 65) \<and>
   metadata_get (fill_road fixed_env road_unjoined 0) ''pciSynthetic'' = Some (JBool True) \<and>
   metadata_get (fill_road fixed_env road_unjoined 0) ''synthetic'' = None \<and>
   metadata_get (fill_road fixed_env road_unjoined 0) ''synthetic'' \<noteq> Some (JBool True)"
proof -
  have e: "fst (ensureAllRoadsHavePCI fixed_env [road_unjoined]) = [fill_road fixed_env road_unjoined 0]"
    by (simp add: ensureAllRoadsHavePCI_def ensure_step_def lacks_pci_examples)
  have p: "syn_pci (generateSyntheticPCI fixed_env road_unjoined 0) = 65"
    by (simp add: generateSyntheticPCI_def basePCI_def kind_road_unjoined fixed_env_def math_round_def)
  have s: "metadata_get road_unjoined ''synthetic'' = None"
    by (simp add: metadata_get_def road_unjoined_def osm_metadata_js_def osm_metadata_def)
  show ?thesis
    using e p s lacks_pci_examples kind_road_unjoined by (simp add: fill_road_metadata)
qed

section \<open>Signal loading\<close>

lemma nearest_for_cong: "roadIndex m1 = roadIndex m \<Longrightarrow> nearest_for m1 = nearest_for m"
  by (intro ext) (simp add: nearest_for_def)

lemma associated_cong: "roadIndex m1 = roadIndex m \<Longrightarrow> associated m1 = associated m"
  by (intro ext) (simp add: associated_def nearest_for_def)

lemma orphaned_cong: "roadIndex m1 = roadIndex m \<Longrightarrow> orphaned m1 = orphaned m"
  by (intro ext) (simp add: orphaned_def nearest_for_def)

lemma signal_step_cases:
  "signal_step e (mgr, n, w) =
     (if associated mgr e
      then (snd (addSignal (el_lon e) (el_lat e) (nearest_for mgr e) mgr), n + 1, w)
      else if orphaned mgr e then (mgr, n, w @ [(el_lon e, el_lat e)])
      else (mgr, n, w))"
  by (auto simp: signal_step_def associated_def orphaned_def nearest_for_def split: option.splits)

lemma addSignal_fields:
  "roadIndex (snd (addSignal x y r mgr)) = roadIndex mgr"
  "signals (snd (addSignal x y r mgr)) = signals mgr @ [make_signal x y r]"
  by (simp_all add: addSignal_def Let_def)

lemma fold_signal_step:
  "fold signal_step els (mgr, n, w) = (mgr', n', w') \<Longrightarrow>
   roadIndex mgr' = roadIndex mgr \<and>
   n' = n + length (filter (associated mgr) els) \<and>
   signals mgr' = signals mgr @
     map (\<lambda>e. make_signal (el_lon e) (el_lat e) (nearest_for mgr e)) (filter (associated mgr) els) \<and>
   w' = w @ map (\<lambda>e. (el_lon e, el_lat e)) (filter (orphaned mgr) els)"
proof (induction els arbitrary: mgr n w)
  case Nil
  then show ?case by simp
next
  case (Cons e els)
  obtain m1 n1 w1 where s: "signal_step e (mgr, n, w) = (m1, n1, w1)"
    by (cases "signal_step e (mgr, n, w)")
  with Cons.prems have f: "fold signal_step els (m1, n1, w1) = (mgr', n', w')" by simp
  have not_both: "associated mgr e \<Longrightarrow> \<not> orphaned mgr e"
    by (simp add: associated_def orphaned_def)
  have m1: "roadIndex m1 = roadIndex mgr"
    using s by (auto simp: signal_step_cases addSignal_fields split: if_splits)
  note ih = Cons.IH [OF f, unfolded nearest_for_cong [OF m1] associated_cong [OF m1] orphaned_cong [OF m1] m1]
  show ?case
  proof (cases "associated mgr e")
    case True
    with s have "n1 = n + 1" "w1 = w" "signals m1 = signals mgr @ [make_signal (el_lon e) (el_lat e) (nearest_for mgr e)]"
      by (auto simp: signal_step_cases addSignal_fields)
    with ih True not_both show ?thesis by simp
  next
    case False
    show ?thesis
    proof (cases "orphaned mgr e")
      case True
      with False s have "n1 = n" "w1 = w @ [(el_lon e, el_lat e)]" "signals m1 = signals mgr"
        by (auto simp: signal_step_cases)
      with ih True False show ?thesis by simp
    next
      case no: False
      with False s have "n1 = n" "w1 = w" "signals m1 = signals mgr"
        by (auto simp: signal_step_cases)
      with ih no False show ?thesis by simp
    qed
  qed
qed

text \<open>
  Claim C8, as the code has it. Signal loading looks every traffic-signal node up in the
  index with the fixed radius of 25 m. A node with a road in range becomes a signal that
  carries the road's id and name, appended to the signal list, and is counted. A node
  without one only leaves a warning: it is not kept in the signal list. The index,
  and with it the traffic data, is the same after the load as before: no
  \<open>signalCount\<close> is stored or incremented. The operation returns the number of
  signals associated, and nothing about the others.
\<close>

theorem loadSignals_associates_or_warns:
  assumes "loadSignals (Some els) mgr = Inr (mgr', n, warned)"
  shows "roadIndex mgr' = roadIndex mgr \<and>
     n = length (filter (associated mgr) els) \<and>
     signals mgr' = signals mgr @
       map (\<lambda>e. make_signal (el_lon e) (el_lat e) (nearest_for mgr e)) (filter (associated mgr) els) \<and>
     warned = map (\<lambda>e. (el_lon e, el_lat e)) (filter (orphaned mgr) els) \<and>
     (\<forall>e\<in>set els. associated mgr e \<longrightarrow>
        (\<exists>road. findNearest_js (roadIndex mgr) (el_lon e) (el_lat e) 25 = Some road \<and>
           sig_roadId (make_signal (el_lon e) (el_lat e) (nearest_for mgr e)) = Some (road_id road)))"
proof -
  from assms have "fold signal_step els (mgr, 0, []) = (mgr', n, warned)"
    by (simp add: loadSignals_def)
  from fold_signal_step [OF this] show ?thesis
    by (auto simp: associated_def nearest_for_def make_signal_def)
qed

lemma signal_node_fields [simp]:
  "is_signal_node (signal_node x y)" "el_lon (signal_node x y) = x" "el_lat (signal_node x y) = y"
  by (simp_all add: signal_node_def is_signal_node_def)

lemma nearest_for_examples:
  "nearest_for manager_north (signal_node (1 / 2048) (1 / 8192)) = Some road_north"
  "nearest_for manager_north (signal_node 5 5) = None"
  by (simp_all add: nearest_for_def manager_north_def new_SignalManager_def eval_js)

lemma nearest_for_addSignal: "nearest_for (snd (addSignal x y r mgr)) = nearest_for mgr"
  by (rule nearest_for_cong) (rule addSignal_fields)

lemma loadSignals_example:
  "loadSignals (Some two_nodes) manager_north =
     Inr (snd (addSignal (1 / 2048) (1 / 8192) (Some road_north) manager_north), 1, [(5, 5)])"
  using nearest_for_examples
  by (simp add: loadSignals_def two_nodes_def signal_step_cases associated_def orphaned_def
      nearest_for_addSignal)

theorem loadSignals_associates_or_warns_witness:
  "loadSignals (Some two_nodes) manager_north =
     Inr (snd (addSignal (1 / 2048) (1 / 8192) (Some road_north) manager_north), 1, [(5, 5)]) \<and>
   roadIndex (snd (addSignal (1 / 2048) (1 / 8192) (Some road_north) manager_north)) = roadIndex manager_north \<and>
   (1::nat) = length (filter (associated manager_north) two_nodes) \<and>
   signals (snd (addSignal (1 / 2048) (1 / 8192) (Some road_north) manager_north)) =
     signals manager_north @
       map (\<lambda>e. make_signal (el_lon e) (el_lat e) (nearest_for manager_north e))
         (filter (associated manager_north) two_nodes) \<and>
   [(5, 5)] = map (\<lambda>e. (el_lon e, el_lat e)) (filter (orphaned manager_north) two_nodes)"
  using loadSignals_associates_or_warns [OF loadSignals_example] loadSignals_example
  by blast

text \<open>
  Two signal nodes, one 6.79 m from the only road and one far from it. The load
  returns 1. The signal list holds the first node only, with the road's id; the second
  node is in no list, only in the warnings. The traffic data of the index is as empty as
  before: there is no \<open>signalCount\<close> for the road.
\<close>

theorem loadSignals_drops_orphans_and_counts_nothing:
  "\<exists>mgr'. loadSignals (Some two_nodes) manager_north = Inr (mgr', 1, [(5, 5)]) \<and>
     map sig_id (signals mgr') = [(1 / 2048, 1 / 8192)] \<and>
     map sig_roadId (signals mgr') = [Some ''osm_way_3''] \<and>
     getSignalsForRoad ''osm_way_3'' mgr' = signals mgr' \<and>
     trafficData (roadIndex mgr') = [] \<and>
     getTrafficData ''osm_way_3'' (roadIndex mgr') = None"
proof -
  let ?m = "snd (addSignal (1 / 2048) (1 / 8192) (Some road_north) manager_north)"
  have s: "signals ?m = [make_signal (1 / 2048) (1 / 8192) (Some road_north)]"
    by (simp add: addSignal_fields manager_north_def new_SignalManager_def)
  have t: "trafficData (roadIndex ?m) = []"
    by (simp add: addSignal_fields manager_north_def new_SignalManager_def addRoads_js_def
        addRoad_js_def new_RoadIndex_js_def Let_def)
  have i: "road_id road_north = ''osm_way_3''" by (simp add: example_defs)
  show ?thesis
    using loadSignals_example s t i
    by (intro exI [of _ ?m]) (simp add: make_signal_def getSignalsForRoad_def getTrafficData_def)
qed

section \<open>The ids the stores hold\<close>

lemma addRoad_ids:
  "road_ids (addRoad x idx) = insert (road_id x) (road_ids idx)"
  "spatial_ids_ts (addRoad x idx) = insert (road_id x) (spatial_ids_ts idx)"
  "traffic_ids (addRoad x idx) = traffic_ids idx"
  "keys_ok idx \<Longrightarrow> keys_ok (addRoad x idx)"
  by (auto simp: addRoad_def road_ids_def spatial_ids_ts_def traffic_ids_def rbush_insert_def
      item_of_def dom_update keys_ok_def update_conv')

lemma addRoad_js_ids:
  "road_ids (addRoad_js x idx) = insert (road_id x) (road_ids idx)"
  "spatial_ids_js (addRoad_js x idx) = insert (road_id x) (spatial_ids_js idx)"
  "traffic_ids (addRoad_js x idx) = traffic_ids idx"
  "keys_ok idx \<Longrightarrow> keys_ok (addRoad_js x idx)"
proof -
  show "road_ids (addRoad_js x idx) = insert (road_id x) (road_ids idx)"
    by (auto simp: addRoad_js_def road_ids_def dom_update Let_def)
  show "spatial_ids_js (addRoad_js x idx) = insert (road_id x) (spatial_ids_js idx)"
  proof -
    have "(\<exists>k. i \<in> set (cellRoads (spatialGrid (addRoad_js x idx)) k)) \<longleftrightarrow>
        i = road_id x \<or> (\<exists>k. i \<in> set (cellRoads (spatialGrid idx) k))" for i
    proof
      assume "\<exists>k. i \<in> set (cellRoads (spatialGrid (addRoad_js x idx)) k)"
      then show "i = road_id x \<or> (\<exists>k. i \<in> set (cellRoads (spatialGrid idx) k))"
        unfolding cellRoads_addRoad_js by (auto split: if_splits)
    next
      assume "i = road_id x \<or> (\<exists>k. i \<in> set (cellRoads (spatialGrid idx) k))"
      then show "\<exists>k. i \<in> set (cellRoads (spatialGrid (addRoad_js x idx)) k)"
      proof
        assume "i = road_id x"
        then have "i \<in> set (cellRoads (spatialGrid (addRoad_js x idx)) (cell_of x))"
          unfolding cellRoads_addRoad_js by simp
        then show ?thesis ..
      next
        assume "\<exists>k. i \<in> set (cellRoads (spatialGrid idx) k)"
        then obtain k where "i \<in> set (cellRoads (spatialGrid idx) k)" ..
        then have "i \<in> set (cellRoads (spatialGrid (addRoad_js x idx)) k)"
          unfolding cellRoads_addRoad_js by simp
        then show ?thesis ..
      qed
    qed
    then show ?thesis unfolding spatial_ids_js_def by auto
  qed
  show "traffic_ids (addRoad_js x idx) = traffic_ids idx"
    by (simp add: addRoad_js_def traffic_ids_def Let_def)
  show "keys_ok idx \<Longrightarrow> keys_ok (addRoad_js x idx)"
    by (auto simp: addRoad_js_def keys_ok_def update_conv' Let_def)
qed

lemma fold_addRoad_ids:
  "road_ids (fold addRoad segs idx) = road_ids idx \<union> road_id ` set segs"
  "spatial_ids_ts (fold addRoad segs idx) = spatial_ids_ts idx \<union> road_id ` set segs"
  "traffic_ids (fold addRoad segs idx) = traffic_ids idx"
  "keys_ok idx \<Longrightarrow> keys_ok (fold addRoad segs idx)"
  by (induction segs arbitrary: idx) (auto simp: addRoad_ids)

lemma fold_addRoad_js_ids:
  "road_ids (fold addRoad_js segs idx) = road_ids idx \<union> road_id ` set segs"
  "spatial_ids_js (fold addRoad_js segs idx) = spatial_ids_js idx \<union> road_id ` set segs"
  "traffic_ids (fold addRoad_js segs idx) = traffic_ids idx"
  "keys_ok idx \<Longrightarrow> keys_ok (fold addRoad_js segs idx)"
  by (induction segs arbitrary: idx) (auto simp: addRoad_js_ids)

lemma setTrafficData_ids:
  "road_ids (setTrafficData i m idx) = road_ids idx"
  "traffic_ids (setTrafficData i m idx) = insert i (traffic_ids idx)"
  "keys_ok idx \<Longrightarrow> keys_ok (setTrafficData i m idx)"
  by (auto simp: setTrafficData_def road_ids_def traffic_ids_def dom_update keys_ok_def)

lemma setTrafficData_spatial:
  "spatial_ids_ts (setTrafficData i m idx) = spatial_ids_ts idx"
  "spatial_ids_js (setTrafficData i m jdx) = spatial_ids_js jdx"
  by (simp_all add: setTrafficData_def spatial_ids_ts_def spatial_ids_js_def)

lemma loaded_ids_set:
  "road_id ` set (loaded_roads fromOSMWay els) = set (map (\<lambda>e. ''osm_way_'' @ el_id e) (filter loadable els))"
  "road_id ` set (loaded_roads fromOSMWay_js els) = set (map (\<lambda>e. ''osm_way_'' @ el_id e) (filter loadable els))"
  using loaded_roads_ids [of osm_metadata els] loaded_roads_ids [of osm_metadata_js els]
  unfolding fromOSMWay_def fromOSMWay_js_def by (metis set_map)+

lemma exec_ts_ids:
  "road_ids (snd (exec_ts search c idx)) = road_ids idx \<union> set (ids_added c)"
  "spatial_ids_ts (snd (exec_ts search c idx)) = spatial_ids_ts idx \<union> set (ids_added c)"
  "traffic_ids (snd (exec_ts search c idx)) = traffic_ids idx \<union> set (ids_set_traffic c)"
  "keys_ok idx \<Longrightarrow> keys_ok (snd (exec_ts search c idx))"
proof -
  have load: "snd (exec_ts search (LoadFromOSM d) idx) =
      (case d of None \<Rightarrow> idx | Some els \<Rightarrow> fold addRoad (loaded_roads fromOSMWay els) idx)" for d
    by (cases d) (simp_all add: loadFromOSM_result addRoads_def, simp add: loadFromOSM_def)
  show "road_ids (snd (exec_ts search c idx)) = road_ids idx \<union> set (ids_added c)"
    by (cases c) (auto simp: addRoad_ids setTrafficData_ids load fold_addRoad_ids loaded_ids_set
        simp del: exec_ts.simps(2) split: option.splits)
  show "spatial_ids_ts (snd (exec_ts search c idx)) = spatial_ids_ts idx \<union> set (ids_added c)"
    by (cases c) (auto simp: addRoad_ids setTrafficData_spatial load fold_addRoad_ids loaded_ids_set
        simp del: exec_ts.simps(2) split: option.splits)
  show "traffic_ids (snd (exec_ts search c idx)) = traffic_ids idx \<union> set (ids_set_traffic c)"
    by (cases c) (auto simp: addRoad_ids setTrafficData_ids load fold_addRoad_ids
        simp del: exec_ts.simps(2) split: option.splits)
  show "keys_ok idx \<Longrightarrow> keys_ok (snd (exec_ts search c idx))"
    by (cases c) (auto simp: addRoad_ids setTrafficData_ids load fold_addRoad_ids
        simp del: exec_ts.simps(2) split: option.splits)
qed

lemma exec_js_ids:
  "road_ids (snd (exec_js c idx)) = road_ids idx \<union> set (ids_added c)"
  "spatial_ids_js (snd (exec_js c idx)) = spatial_ids_js idx \<union> set (ids_added c)"
  "traffic_ids (snd (exec_js c idx)) = traffic_ids idx \<union> set (ids_set_traffic c)"
  "keys_ok idx \<Longrightarrow> keys_ok (snd (exec_js c idx))"
proof -
  have load: "snd (exec_js (LoadFromOSM d) idx) =
      (case d of None \<Rightarrow> idx | Some els \<Rightarrow> fold addRoad_js (loaded_roads fromOSMWay_js els) idx)" for d
    by (cases d) (simp_all add: loadFromOSM_js_result addRoads_js_def, simp add: loadFromOSM_js_def)
  show "road_ids (snd (exec_js c idx)) = road_ids idx \<union> set (ids_added c)"
    by (cases c) (auto simp: addRoad_js_ids setTrafficData_ids load fold_addRoad_js_ids loaded_ids_set
        simp del: exec_js.simps(2) split: option.splits)
  show "spatial_ids_js (snd (exec_js c idx)) = spatial_ids_js idx \<union> set (ids_added c)"
    by (cases c) (auto simp: addRoad_js_ids setTrafficData_spatial load fold_addRoad_js_ids loaded_ids_set
        simp del: exec_js.simps(2) split: option.splits)
  show "traffic_ids (snd (exec_js c idx)) = traffic_ids idx \<union> set (ids_set_traffic c)"
    by (cases c) (auto simp: addRoad_js_ids setTrafficData_ids load fold_addRoad_js_ids
        simp del: exec_js.simps(2) split: option.splits)
  show "keys_ok idx \<Longrightarrow> keys_ok (snd (exec_js c idx))"
    by (cases c) (auto simp: addRoad_js_ids setTrafficData_ids load fold_addRoad_js_ids
        simp del: exec_js.simps(2) split: option.splits)
qed

lemma run_ts_ids:
  "road_ids (run_ts search calls idx) = road_ids idx \<union> set (concat (map ids_added calls))"
  "spatial_ids_ts (run_ts search calls idx) = spatial_ids_ts idx \<union> set (concat (map ids_added calls))"
  "traffic_ids (run_ts search calls idx) = traffic_ids idx \<union> set (concat (map ids_set_traffic calls))"
  "keys_ok idx \<Longrightarrow> keys_ok (run_ts search calls idx)"
  unfolding run_ts_def
  by (induction calls arbitrary: idx) (auto simp: exec_ts_ids)

lemma run_js_ids:
  "road_ids (run_js calls idx) = road_ids idx \<union> set (concat (map ids_added calls))"
  "spatial_ids_js (run_js calls idx) = spatial_ids_js idx \<union> set (concat (map ids_added calls))"
  "traffic_ids (run_js calls idx) = traffic_ids idx \<union> set (concat (map ids_set_traffic calls))"
  "keys_ok idx \<Longrightarrow> keys_ok (run_js calls idx)"
  unfolding run_js_def
  by (induction calls arbitrary: idx) (auto simp: exec_js_ids)

lemma new_index_ids:
  "road_ids new_RoadIndex = {}" "spatial_ids_ts new_RoadIndex = {}" "traffic_ids new_RoadIndex = {}"
  "keys_ok new_RoadIndex"
  "road_ids new_RoadIndex_js = {}" "spatial_ids_js new_RoadIndex_js = {}" "traffic_ids new_RoadIndex_js = {}"
  "keys_ok new_RoadIndex_js"
  by (simp_all add: new_RoadIndex_def new_RoadIndex_js_def road_ids_def spatial_ids_ts_def
      spatial_ids_js_def traffic_ids_def keys_ok_def cellRoads_def)

lemma getRoad_resolves:
  assumes "keys_ok idx" "i \<in> road_ids idx"
  shows "\<exists>s. getRoad i idx = Some s \<and> road_id s = i"
proof -
  from assms(2) have "map_of (roads idx) i \<noteq> None"
    by (simp add: road_ids_def map_of_eq_None_iff)
  then obtain s where "map_of (roads idx) i = Some s" by blast
  with assms(1) show ?thesis by (auto simp: getRoad_def keys_ok_def)
qed

text \<open>
  Claim C9, as the code has it. After every sequence of calls on a new index, in both
  files: the ids held by the coarse spatial structure are exactly the ids of the roads
  map, namely those sent in through \<open>addRoad\<close> and \<open>loadFromOSM\<close>, and each of them
  resolves through \<open>getRoad\<close> to a segment with that id. The ids of the traffic data
  are exactly those passed to \<open>setTrafficData\<close>, whether or not a road has them:
  \<open>setTrafficData\<close> does not look at the roads map.
\<close>

theorem stores_hold_the_ids_sent_in:
  "spatial_ids_ts (run_ts search calls new_RoadIndex) = road_ids (run_ts search calls new_RoadIndex) \<and>
   road_ids (run_ts search calls new_RoadIndex) = set (concat (map ids_added calls)) \<and>
   traffic_ids (run_ts search calls new_RoadIndex) = set (concat (map ids_set_traffic calls)) \<and>
   (\<forall>i\<in>road_ids (run_ts search calls new_RoadIndex).
      \<exists>s. getRoad i (run_ts search calls new_RoadIndex) = Some s \<and> road_id s = i) \<and>
   spatial_ids_js (run_js calls new_RoadIndex_js) = road_ids (run_js calls new_RoadIndex_js) \<and>
   road_ids (run_js calls new_RoadIndex_js) = set (concat (map ids_added calls)) \<and>
   traffic_ids (run_js calls new_RoadIndex_js) = set (concat (map ids_set_traffic calls)) \<and>
   (\<forall>i\<in>road_ids (run_js calls new_RoadIndex_js).
      \<exists>s. getRoad i (run_js calls new_RoadIndex_js) = Some s \<and> road_id s = i)"
  using getRoad_resolves [OF run_ts_ids(4) [OF new_index_ids(4)]]
    getRoad_resolves [OF run_js_ids(4) [OF new_index_ids(8)]]
  by (simp add: run_ts_ids run_js_ids new_index_ids)

lemma example_calls_ids:
  "concat (map ids_added example_calls) =
     [''osm_way_3'', ''osm_way_1'', ''osm_way_2'', ''osm_way_3'', ''osm_way_4'', ''osm_way_5'',
      ''osm_way_6'', ''osm_way_8'', ''osm_way_9'', ''osm_way_10'']"
  "concat (map ids_set_traffic example_calls) = [''osm_way_3'', ''osm_way_77'']"
  by (simp_all add: example_calls_def batch_of_ten_def example_defs)

theorem stores_hold_the_ids_sent_in_witness:
  "spatial_ids_ts (run_ts linear_search example_calls new_RoadIndex)
     = road_ids (run_ts linear_search example_calls new_RoadIndex) \<and>
   road_ids (run_ts linear_search example_calls new_RoadIndex) =
     set [''osm_way_3'', ''osm_way_1'', ''osm_way_2'', ''osm_way_3'', ''osm_way_4'', ''osm_way_5'',
          ''osm_way_6'', ''osm_way_8'', ''osm_way_9'', ''osm_way_10''] \<and>
   traffic_ids (run_ts linear_search example_calls new_RoadIndex) = set [''osm_way_3'', ''osm_way_77''] \<and>
   (\<exists>s. getRoad ''osm_way_3'' (run_ts linear_search example_calls new_RoadIndex) = Some s \<and>
        road_id s = ''osm_way_3'') \<and>
   spatial_ids_js (run_js example_calls new_RoadIndex_js) = road_ids (run_js example_calls new_RoadIndex_js) \<and>
   traffic_ids (run_js example_calls new_RoadIndex_js) = set [''osm_way_3'', ''osm_way_77''] \<and>
   (\<exists>s. getRoad ''osm_way_8'' (run_js example_calls new_RoadIndex_js) = Some s \<and>
        road_id s = ''osm_way_8'')"
proof -
  note t = stores_hold_the_ids_sent_in [of linear_search example_calls, unfolded example_calls_ids]
  have "''osm_way_3'' \<in> road_ids (run_ts linear_search example_calls new_RoadIndex)"
    using t by simp
  moreover have "''osm_way_8'' \<in> road_ids (run_js example_calls new_RoadIndex_js)"
    using t by simp
  ultimately show ?thesis using t by blast
qed

text \<open>
  One call of \<open>setTrafficData\<close> on a new index with an id no road has: the traffic data
  then holds an entry for it, in both files, while the roads map is empty.
\<close>

theorem setTrafficData_accepts_unknown_id:
  "traffic_ids (run_ts linear_search [SetTrafficData ''ghost'' some_metrics] new_RoadIndex) = {''ghost''} \<and>
   road_ids (run_ts linear_search [SetTrafficData ''ghost'' some_metrics] new_RoadIndex) = {} \<and>
   getTrafficData ''ghost'' (run_ts linear_search [SetTrafficData ''ghost'' some_metrics] new_RoadIndex)
     = Some some_metrics \<and>
   getRoad ''ghost'' (run_ts linear_search [SetTrafficData ''ghost'' some_metrics] new_RoadIndex) = None \<and>
   traffic_ids (run_js [SetTrafficData ''ghost'' some_metrics] new_RoadIndex_js) = {''ghost''} \<and>
   road_ids (run_js [SetTrafficData ''ghost'' some_metrics] new_RoadIndex_js) = {} \<and>
   getTrafficData ''ghost'' (run_js [SetTrafficData ''ghost'' some_metrics] new_RoadIndex_js)
     = Some some_metrics \<and>
   getRoad ''ghost'' (run_js [SetTrafficData ''ghost'' some_metrics] new_RoadIndex_js) = None"
  by (simp add: run_ts_def run_js_def setTrafficData_def new_RoadIndex_def new_RoadIndex_js_def
      traffic_ids_def road_ids_def getTrafficData_def getRoad_def)

text \<open>
  Claim C10. A call of \<open>findNearest\<close>, \<open>getRoad\<close>, \<open>getAllRoads\<close>,
  \<open>getTrafficData\<close> or \<open>getStats\<close> leaves the index as it was: the roads map, the
  coarse spatial structure and the traffic data, in both files. The array that
  \<open>getAllRoads\<close> returns is a new one: it holds the segments of the roads map in
  insertion order, no array handed out before is touched, and whatever is done to its
  contents afterwards, the index and the result of the next \<open>getAllRoads\<close> stay the
  same.
\<close>

theorem queries_leave_the_index_unchanged:
  "(is_query c \<longrightarrow> snd (exec_ts search c idx) = idx) \<and>
   (is_query c \<longrightarrow> snd (exec_js c jdx) = jdx) \<and>
   fst (call_getAllRoads w) = length (w_arrays w) \<and>
   w_index (snd (call_getAllRoads w)) = w_index w \<and>
   w_arrays (snd (call_getAllRoads w)) ! fst (call_getAllRoads w) = map snd (roads (w_index w)) \<and>
   take (length (w_arrays w)) (w_arrays (snd (call_getAllRoads w))) = w_arrays w \<and>
   w_index (change_array (fst (call_getAllRoads w)) f (snd (call_getAllRoads w))) = w_index w \<and>
   getAllRoads (w_index (change_array (fst (call_getAllRoads w)) f (snd (call_getAllRoads w))))
     = getAllRoads (w_index w)"
proof -
  have "is_query c \<longrightarrow> snd (exec_ts search c idx) = idx"
    by (cases c) simp_all
  moreover have "is_query c \<longrightarrow> snd (exec_js c jdx) = jdx"
    by (cases c) simp_all
  ultimately show ?thesis
    by (simp add: call_getAllRoads_def change_array_def getAllRoads_def)
qed

theorem queries_leave_the_index_unchanged_witness:
  "is_query (FindNearest (1 / 2048) (1 / 8192) 30) \<and> is_query GetAllRoads \<and>
   snd (exec_ts linear_search (FindNearest (1 / 2048) (1 / 8192) 30) (addRoads [road_short, road_north] new_RoadIndex))
     = addRoads [road_short, road_north] new_RoadIndex \<and>
   snd (exec_js GetAllRoads (addRoads_js [road_short, road_north] new_RoadIndex_js))
     = addRoads_js [road_short, road_north] new_RoadIndex_js \<and>
   fst (exec_js GetAllRoads (addRoads_js [road_short, road_north] new_RoadIndex_js))
     = Roads [road_short, road_north] \<and>
   getAllRoads (w_index (change_array 0 (\<lambda>xs. [])
       (snd (call_getAllRoads \<lparr>w_index = addRoads_js [road_short, road_north] new_RoadIndex_js, w_arrays = []\<rparr>))))
     = [road_short, road_north]"
proof -
  have g: "getAllRoads (addRoads_js [road_short, road_north] new_RoadIndex_js) = [road_short, road_north]"
    by (simp add: getAllRoads_def addRoads_js_def addRoad_js_def new_RoadIndex_js_def Let_def example_defs)
  show ?thesis
    using queries_leave_the_index_unchanged [of "FindNearest (1 / 2048) (1 / 8192) 30" linear_search
        "addRoads [road_short, road_north] new_RoadIndex" "addRoads_js [road_short, road_north] new_RoadIndex_js"
        "\<lparr>w_index = addRoads_js [road_short, road_north] new_RoadIndex_js, w_arrays = []\<rparr>" "\<lambda>xs. []"]
      queries_leave_the_index_unchanged [of GetAllRoads linear_search
        "addRoads [road_short, road_north] new_RoadIndex" "addRoads_js [road_short, road_north] new_RoadIndex_js"
        "\<lparr>w_index = addRoads_js [road_short, road_north] new_RoadIndex_js, w_arrays = []\<rparr>" "\<lambda>xs. []"]
      g
    by simp
qed

section \<open>Segments built by fromOSMWay meet the invariant of the bounding box\<close>

lemma bbox_covers_flatten:
  "bbox_covers (a, b, c, d) (flatten g) \<longleftrightarrow> (\<forall>q\<in>set g. a \<le> fst q \<and> fst q \<le> c \<and> b \<le> snd q \<and> snd q \<le> d)"
  by (induction g) (auto simp: flatten_def)

lemma scan_fold_covers:
  assumes "fold (\<lambda>point (minLon, minLat, maxLon, maxLat).
             (min minLon (fst point), min minLat (snd point),
              max maxLon (fst point), max maxLat (snd point))) ps (a :: real, b :: real, c :: real, d :: real)
           = (a', b', c', d')"
  shows "a' \<le> a \<and> b' \<le> b \<and> c \<le> c' \<and> d \<le> d' \<and>
         (\<forall>q\<in>set ps. a' \<le> fst q \<and> fst q \<le> c' \<and> b' \<le> snd q \<and> snd q \<le> d')"
  using assms
proof (induction ps arbitrary: a b c d)
  case Nil
  then show ?case by simp
next
  case (Cons p ps)
  from Cons.prems have "fold (\<lambda>point (minLon, minLat, maxLon, maxLat).
             (min minLon (fst point), min minLat (snd point),
              max maxLon (fst point), max maxLat (snd point))) ps
         (min a (fst p), min b (snd p), max c (fst p), max d (snd p)) = (a', b', c', d')"
    by simp
  from Cons.IH [OF this] show ?case by auto
qed

lemma scan_bbox_covers:
  assumes "g \<noteq> []"
  shows "bbox_covers (scan_bbox g) (flatten g)"
proof -
  from assms obtain p ps where g: "g = p # ps" by (cases g) auto
  obtain a' b' c' d' where s: "scan_bbox (p # ps) = (a', b', c', d')"
    by (cases "scan_bbox (p # ps)") auto
  then have "fold (\<lambda>point (minLon, minLat, maxLon, maxLat).
             (min minLon (fst point), min minLat (snd point),
              max maxLon (fst point), max maxLat (snd point))) ps (fst p, snd p, fst p, snd p) = (a', b', c', d')"
    by simp
  from scan_fold_covers [OF this]
  have "\<forall>q\<in>set (p # ps). a' \<le> fst q \<and> fst q \<le> c' \<and> b' \<le> snd q \<and> snd q \<le> d'"
    by auto
  then have "bbox_covers (a', b', c', d') (flatten (p # ps))"
    by (simp only: bbox_covers_flatten)
  then show ?thesis by (simp only: g s)
qed

lemma fromOSMWay_with_well_formed:
  assumes "fromOSMWay_with mk way = Inr seg"
  shows "well_formed seg"
proof -
  from assms obtain g where g: "geometry way = Some g" "2 \<le> length g"
    by (auto simp: fromOSMWay_with_def split: option.splits if_splits)
  then have "g \<noteq> []" by auto
  from scan_bbox_covers [OF this] assms g show ?thesis
    by (auto simp: fromOSMWay_with_def well_formed_def Let_def)
qed

lemma loaded_roads_well_formed:
  "\<forall>s\<in>set (loaded_roads (fromOSMWay_with mk) els). well_formed s"
  by (auto simp: loaded_roads_def fromOSMWay_with_well_formed split: sum.splits)

lemma fromOSMWay_level_road:
  assumes "west \<le> east"
  shows "fromOSMWay (residential_way i (Some [(west, y), (east, y)])) = Inr (level_road (''osm_way_'' @ i) west east y)"
  using assms
  by (simp add: fromOSMWay_def fromOSMWay_with_def residential_way_def level_road_def flatten_def
      osm_name_def osm_kind_def truthy_tag_def Let_def)

end
